theory Spec2Isabelle
  imports Main
begin

section \<open>Strings of the Go runtime\<close>

text \<open>
  A Go string is a sequence of bytes; \<^typ>\<open>string\<close> (a list of 8-bit characters)
  models it byte by byte.  \<open>strings.HasPrefix\<close> and \<open>strings.ReplaceAll\<close> are
  library functions of Go; they are written out here as the Go library documents them.
\<close>

fun HasPrefix :: "string \<Rightarrow> string \<Rightarrow> bool" where
  "HasPrefix s [] = True"
| "HasPrefix [] (p # ps) = False"
| "HasPrefix (c # cs) (p # ps) = (c = p \<and> HasPrefix cs ps)"

text \<open>
  \<open>utf8First b\<close> is the entry of Go's table \<open>first\<close> for a leading byte: the length of
  the encoded rune and the range accepted for the second byte.  A length of 1 stands for
  ASCII and for an invalid leading byte alike (both advance by one byte).
\<close>

definition utf8First :: "nat \<Rightarrow> nat \<times> nat \<times> nat" where
  "utf8First b =
     (if b < 0xC2 then (1, 0, 0)
      else if b \<le> 0xDF then (2, 0x80, 0xBF)
      else if b = 0xE0 then (3, 0xA0, 0xBF)
      else if b \<le> 0xEC then (3, 0x80, 0xBF)
      else if b = 0xED then (3, 0x80, 0x9F)
      else if b \<le> 0xEF then (3, 0x80, 0xBF)
      else if b = 0xF0 then (4, 0x90, 0xBF)
      else if b \<le> 0xF3 then (4, 0x80, 0xBF)
      else if b = 0xF4 then (4, 0x80, 0x8F)
      else (1, 0, 0))"

text \<open>The width that \<open>utf8.DecodeRuneInString\<close> reports for the first rune of a string.\<close>

definition contByte :: "char \<Rightarrow> bool" where
  "contByte c = (0x80 \<le> (of_char c :: nat) \<and> (of_char c :: nat) \<le> 0xBF)"

fun runeWidth :: "string \<Rightarrow> nat" where
  "runeWidth [] = 0"
| "runeWidth (c # cs) =
     (case utf8First (of_char c) of (sz, lo, hi) \<Rightarrow>
        if sz = 1 then 1
        else if length (c # cs) < sz then 1
        else if (of_char (cs ! 0) :: nat) < lo \<or> hi < (of_char (cs ! 0) :: nat) then 1
        else if sz \<le> 2 then 2
        else if \<not> contByte (cs ! 1) then 1
        else if sz \<le> 3 then 3
        else if \<not> contByte (cs ! 2) then 1
        else 4)"

lemma runeWidth_pos: "s \<noteq> [] \<Longrightarrow> 0 < runeWidth s"
  by (cases s) (auto split: prod.splits)

text \<open>
  \<open>strings.ReplaceAll s old new\<close> with an empty \<open>old\<close>: the replacement is written
  before every rune and once more at the end.
\<close>

function insertAfterRunes :: "string \<Rightarrow> string \<Rightarrow> string" where
  "insertAfterRunes new s =
     (if s = [] then []
      else take (runeWidth s) s @ new @ insertAfterRunes new (drop (runeWidth s) s))"
  by pat_completeness auto
termination
  by (relation "measure (\<lambda>(new, s). length s)") (auto simp: runeWidth_pos)

declare insertAfterRunes.simps [simp del]

text \<open>
  A non-empty \<open>old\<close>: the leftmost occurrence is replaced and the search goes on behind
  it (occurrences do not overlap).  The second equation is only used with a non-empty
  \<open>old\<close>, where \<open>drop (length old - 1) cs\<close> is what is left behind the occurrence.
\<close>

fun replaceFrom :: "string \<Rightarrow> string \<Rightarrow> string \<Rightarrow> string" where
  "replaceFrom old new [] = []"
| "replaceFrom old new (c # cs) =
     (if HasPrefix (c # cs) old then new @ replaceFrom old new (drop (length old - 1) cs)
      else c # replaceFrom old new cs)"

definition ReplaceAll :: "string \<Rightarrow> string \<Rightarrow> string \<Rightarrow> string" where
  "ReplaceAll s old new =
     (if old = new then s
      else if old = [] then new @ insertAfterRunes new s
      else replaceFrom old new s)"

section \<open>The determinism validator\<close>

text \<open>
  \<open>RunTimeInfo\<close> of package \<open>gen\<close>.  Its field \<open>AssertStmts\<close> is called
  \<open>AssertStmtsRun\<close> here, the name \<open>AssertStmts\<close> being the decoder's function below.
\<close>

record RunTimeInfo =
  IsValid :: bool
  Panics :: bool
  AssertStmtsRun :: "string list"
  SecondRun :: "string list"

text \<open>The loop of \<open>SetIsValid\<close>: \<open>True\<close> when it runs to its end, \<open>False\<close> at
  the first index where the two lists differ.\<close>

function SetIsValid_loop :: "nat \<Rightarrow> string list \<Rightarrow> string list \<Rightarrow> bool" where
  "SetIsValid_loop i as bs =
     (if i < length as
      then (if as ! i \<noteq> bs ! i then False else SetIsValid_loop (i + 1) as bs)
      else True)"
  by pat_completeness auto
termination
  by (relation "measure (\<lambda>(i, as, bs). length as - i)") auto

declare SetIsValid_loop.simps [simp del]

definition SetIsValid :: "RunTimeInfo \<Rightarrow> bool \<times> RunTimeInfo" where
  "SetIsValid r =
     (if length (AssertStmtsRun r) \<noteq> length (SecondRun r)
      then (False, r\<lparr>IsValid := False\<rparr>)
      else if SetIsValid_loop 0 (AssertStmtsRun r) (SecondRun r)
      then (True, r\<lparr>IsValid := True\<rparr>)
      else (False, r\<lparr>IsValid := False\<rparr>))"

section \<open>The runtime capture decoder\<close>

datatype Output =
  Output (Type: string) (VarName: string) (MapKeyType: string) (Val: string)
         (ArrIdent: string) (Child: "Output option")

datatype Replacement = Replacement (Key: string) (ReplVal: string)

datatype TypeCorrections = TypeCorrections (Prefix: string) (Suffix: string)

text \<open>
  The statement types are declared outside the two source files; the decoder fixes their
  shape: an assignment has a kind, a left hand and a right hand, an assertion a kind, an
  expected operand and a value operand (empty where the decoder sets none).
\<close>

datatype AssignStmtType = AssignStmtTypeDefine | AssignSTmtTypeAssign

datatype AssertStmtType =
  AssertStmtTypeEqualValues | AssertStmtTypeTrue | AssertStmtTypeFalse
| AssertStmtTypeNil | AssertStmtTypeNoError | AssertStmtTypeError

datatype Stmt =
  AssignStmt AssignStmtType string string
| AssertStmt AssertStmtType string string

datatype LogEntry = Errorf string | Warningf string

text \<open>
  Modelled from the spec: the method \<open>Replace\<close> of a statement is not among the source
  files.  The spec has every accumulated replacement applied "by textual substitution
  ... to every previously emitted statement's operands".
\<close>

fun Replace :: "Stmt \<Rightarrow> string \<Rightarrow> string \<Rightarrow> Stmt" where
  "Replace (AssignStmt t l r) k v = AssignStmt t (ReplaceAll l k v) (ReplaceAll r k v)"
| "Replace (AssertStmt t e x) k v = AssertStmt t (ReplaceAll e k v) (ReplaceAll x k v)"

text \<open>
  Modelled from the spec: the helper \<open>Contains\<close> is not among the source files.  The
  decoder records the entry \<open><name> :=\<close> for a target it has declared and asks
  \<open>Contains\<close> with the text \<open><name> := *<pointer>\<close>; the spec reads the answer as "a
  first declaration has already been emitted for this target name".  So \<open>Contains\<close>
  holds when a recorded entry is the head of the text asked for.
\<close>

fun Contains :: "string list \<Rightarrow> string \<Rightarrow> bool" where
  "Contains [] s = False"
| "Contains (x # xs) s = (HasPrefix s x \<or> Contains xs s)"

definition applyReplacements :: "Replacement list \<Rightarrow> string \<Rightarrow> string" where
  "applyReplacements replacements s = fold (\<lambda>r v. ReplaceAll v (Key r) (ReplVal r)) replacements s"

definition replaceInStmt :: "Replacement list \<Rightarrow> Stmt \<Rightarrow> Stmt" where
  "replaceInStmt replacements st = fold (\<lambda>r x. Replace x (Key r) (ReplVal r)) replacements st"

definition numericTypes :: "string list" where
  "numericTypes =
     [''int'', ''float32'', ''float64'', ''byte'', ''rune'', ''uintptr'', ''uint'', ''uint8'',
      ''uint16'', ''uint32'', ''uint64'', ''int8'', ''int16'', ''int32'', ''int64'']"

text \<open>
  \<open>CreateAssertStmts\<close>: the two substitution loops, then the switch on the type tag.
  The result is the statement list and what was logged.
\<close>

definition CreateAssertStmts ::
  "Output \<Rightarrow> Replacement list \<Rightarrow> TypeCorrections \<Rightarrow> Stmt list \<Rightarrow> Stmt list \<times> LogEntry list" where
  "CreateAssertStmts runtimeOutput replacements typeCorrection resStmts =
     (let varName = applyReplacements replacements (VarName runtimeOutput);
          stmts = map (replaceInStmt replacements) resStmts;
          ty = Type runtimeOutput;
          val = Val runtimeOutput
      in
      if ty \<in> set numericTypes then
        (stmts @ [AssertStmt AssertStmtTypeEqualValues
           (Prefix typeCorrection @ ty @ ''('' @ val @ '')'' @ Suffix typeCorrection) varName], [])
      else if ty = ''string'' then
        (stmts @ [AssertStmt AssertStmtTypeEqualValues
           (Prefix typeCorrection @ ty @ ''('' @ [CHR 0x60] @ val @ [CHR 0x60] @ '')''
              @ Suffix typeCorrection) varName], [])
      else if ty = ''bool'' then
        (if val = ''true'' then (stmts @ [AssertStmt AssertStmtTypeTrue varName []], [])
         else (stmts @ [AssertStmt AssertStmtTypeFalse varName []], []))
      else if ty = ''complex64'' \<or> ty = ''complex128'' then
        (stmts @ [AssertStmt AssertStmtTypeEqualValues
           (Prefix typeCorrection @ ty @ val @ Suffix typeCorrection) varName], [])
      else if ty = ''pointer'' then
        (stmts @ [AssertStmt AssertStmtTypeNil varName []], [])
      else if ty = ''error'' then
        (if val = ''nil'' then (stmts @ [AssertStmt AssertStmtTypeNoError varName []], [])
         else (stmts @ [AssertStmt AssertStmtTypeError varName []], []))
      else ([], [Warningf (''unknown type: '' @ ty @ '', value: '' @ val)]))"

text \<open>
  \<open>AssertStmts\<close>.  The slice behind \<open>mem\<close> is shared by all calls of one decoding
  run; the model returns it with the statements and the log.  The first equation is the
  early return for a node without a child; behind it the child exists, so the sanity
  check of the pointer case never fires.
\<close>

fun AssertStmts ::
  "Output \<Rightarrow> Replacement list \<Rightarrow> TypeCorrections \<Rightarrow> Stmt list \<Rightarrow> string list
     \<Rightarrow> (Stmt list \<times> LogEntry list) \<times> string list" where
  "AssertStmts (Output ty vn mkt val ai None) replacements tc resStmts mem =
     (CreateAssertStmts (Output ty vn mkt val ai None) replacements tc resStmts, mem)"
| "AssertStmts (Output ty vn mkt val ai (Some child)) replacements tc resStmts mem =
     (if ty = ''arr'' then
        AssertStmts child (replacements @ [Replacement ai val]) tc resStmts mem
      else if ty = ''custom'' then
        AssertStmts child replacements tc resStmts mem
      else if ty = ''map'' then
        (let x = (if mkt = ''string'' then [CHR 0x22] @ val @ [CHR 0x22] else val)
         in AssertStmts child (replacements @ [Replacement ai x]) tc resStmts mem)
      else if ty = ''pointer'' then
        (if val \<noteq> ''nil'' then
           (let pointerStmt = VarName child @ '' := *'' @ vn in
            if \<not> Contains mem pointerStmt then
              AssertStmts child replacements tc
                (resStmts @ [AssignStmt AssignStmtTypeDefine (VarName child) (''*'' @ vn)])
                (mem @ [VarName child @ '' :=''])
            else
              AssertStmts child replacements tc
                (resStmts @ [AssignStmt AssignSTmtTypeAssign (VarName child) (''*'' @ vn)])
                mem)
         else AssertStmts child replacements tc resStmts mem)
      else AssertStmts child replacements tc resStmts mem)"

text \<open>
  \<open>ParseLine\<close>.  \<open>json.Unmarshal\<close> (Go's library) and the statement printer are
  parameters: \<open>Unmarshal line d\<close> gives the error, if any, and the record \<open>d\<close> as the
  decoder leaves it.  The error is logged and the decoding goes on with the record.
\<close>

definition emptyOutput :: Output where
  "emptyOutput = Output [] [] [] [] [] None"

definition ParseLine ::
  "(string \<Rightarrow> Output \<Rightarrow> string option \<times> Output) \<Rightarrow> (Stmt \<Rightarrow> string) \<Rightarrow> string \<Rightarrow> string list
     \<Rightarrow> (string list \<times> LogEntry list) \<times> string list" where
  "ParseLine Unmarshal PrintStmt jsonString mem =
     (case Unmarshal jsonString emptyOutput of (err, data) \<Rightarrow>
        (case AssertStmts data [] (TypeCorrections [] []) [] mem of ((stmts, logged), mem') \<Rightarrow>
           ((map PrintStmt stmts,
             (case err of None \<Rightarrow> [] | Some msg \<Rightarrow> [Errorf (''unable to parse runtime output: '' @ msg)])
               @ logged),
            mem')))"

section \<open>The syntax trees of the generator\<close>

text \<open>
  The nodes of \<open>go/ast\<close> that the generator reads or builds.  An identifier carries
  the declaration of its object: \<open>None\<close> for an identifier without object, the address
  of a type declaration, or another kind of declaration.  A struct type and an interface
  type carry their own address, the key under which the generator memoizes them.
  \<open>NilExpr\<close> is the \<open>nil\<close> expression and \<open>BadExpr\<close> any node the generator has
  no case for.  \<open>MemLit a\<close> is the reference to the composite literal memoized for
  the struct type at address \<open>a\<close>.
\<close>

datatype token = DEFINE | ASSIGN | AND

datatype ChanDir = SEND | RECV | SENDRECV

datatype ObjDecl = TypeSpecDecl nat | OtherDecl

datatype Expr =
    NilExpr
  | BadExpr
  | Ident string "ObjDecl option"
  | BasicLit string
  | CompositeLit Expr "Expr list"
  | MemLit nat
  | KeyValueExpr Expr Expr
  | CallExpr Expr "Expr list"
  | UnaryExpr token Expr
  | SelectorExpr Expr string
  | StarExpr Expr
  | ArrayType Expr Expr
  | MapType Expr Expr
  | ChanType ChanDir Expr
  | FuncType "Field list" "Field list option"
  | InterfaceType nat "Field list" bool
  | StructType nat "Field list" bool
  | Ellipsis Expr
  | FuncLit Expr "GoStmt list"
and Field = Field (Names: "string list") (FieldType: Expr)
and GoStmt =
    ast_AssignStmt "Expr list" token "Expr list"
  | ast_ReturnStmt "Expr list"
  | ast_ExprStmt Expr

datatype Spec = TypeSpec Expr Expr | OtherSpec

datatype Decl =
    GenDecl "Spec list"
  | FuncDecl "Field list" Expr Expr "GoStmt list"

text \<open>
  A run of the generator ends with a result, with a panic of the Go runtime (an index
  out of range, a nil dereference), or not at all; the last shows as \<open>OutOfFuel\<close>
  for every bound on the depth of the calls.
\<close>

datatype error = OutOfFuel | Panic

type_synonym 'a result = "error + 'a"

definition bindR :: "'a result \<Rightarrow> ('a \<Rightarrow> 'b result) \<Rightarrow> 'b result" where
  "bindR m f = (case m of Inl x \<Rightarrow> Inl x | Inr v \<Rightarrow> f v)"

lemma bindR_simps [simp]: "bindR (Inl x) f = Inl x" "bindR (Inr v) f = f v"
  by (simp_all add: bindR_def)

text \<open>
  \<open>CycleInfo\<close>.  A Go map of counters reads 0 at a key it does not hold, so the
  counters are total functions; they are unbounded integers (a wrap-around would need
  \<open>2^63\<close> encounters).  The maps are shared by every \<open>RecursionInput\<close> that copies
  the record, so the model threads one \<open>CycleInfo\<close> through the calls, next to the
  state of the name and value generators.  \<open>StructByStruct\<close> is never read or
  written.
\<close>

record CycleInfo =
  Structs :: "string \<Rightarrow> int"
  Interfaces :: "nat \<Rightarrow> int"
  StructMem :: "nat \<rightharpoonup> Expr"
  InterfaceMem :: "nat \<rightharpoonup> Decl"

definition DefaultAmountRecursion :: int where
  "DefaultAmountRecursion = 3"

definition FreshCycleInfo :: CycleInfo where
  "FreshCycleInfo =
     \<lparr>Structs = (\<lambda>_. 0), Interfaces = (\<lambda>_. 0), StructMem = Map.empty, InterfaceMem = Map.empty\<rparr>"

datatype 'p RecursionInput = RecursionInput (e: Expr) (varName: string) (pkgPointer: 'p)

record 'g SynthState =
  counter :: CycleInfo
  gen :: 'g

record TypeExprToValExprRes =
  Expr :: Expr
  Statements :: "GoStmt list"
  Declarations :: "Decl list"
  ChanIdents :: "Expr list"
  ChanStmts :: "GoStmt list"
  ChanDecls :: "GoStmt list"

text \<open>
  What the generator takes from code outside the two source files (the package resolver,
  the value and name generators, the type corrector, the feasibility probes) and the
  syntax tree's declaration table are collected in one record of parameters.
\<close>

record ('g, 'p) Env =
  MaxRecursion :: int
  typeSpecs :: "nat \<Rightarrow> string \<times> Expr"
  CorrectTypeExpr :: "Expr \<Rightarrow> 'p RecursionInput \<Rightarrow> Expr"
  ShouldReturnForInterface :: "Expr \<Rightarrow> 'p RecursionInput \<Rightarrow> bool"
  ShouldReturnForFunc :: "Expr \<Rightarrow> 'p RecursionInput \<Rightarrow> bool"
  IsRoot :: "'p \<Rightarrow> bool"
  PkgForPointerName :: "'p \<Rightarrow> string"
  FindInCurrent :: "'p \<Rightarrow> string \<Rightarrow> bool \<times> Expr \<times> 'p"
  FindImport :: "'p \<Rightarrow> string \<Rightarrow> string \<Rightarrow> bool \<times> Expr \<times> 'p"
  IsBasicLit :: "string \<Rightarrow> bool"
  IsError :: "string \<Rightarrow> bool"
  BasicExprToValExpr :: "string \<Rightarrow> 'g \<Rightarrow> Expr \<times> 'g"
  ErrExprToValExpr :: "'g \<Rightarrow> TypeExprToValExprRes \<times> 'g"
  GetUnnamedStructIdent :: "Expr \<Rightarrow> 'p RecursionInput \<Rightarrow> string"
  InterfaceGenDecl :: "'p RecursionInput \<Rightarrow> Expr \<Rightarrow> Decl"
  Generate :: "'g \<Rightarrow> string \<times> 'g"
  ValType :: "'g \<Rightarrow> string \<times> 'g"
  ArrayLen :: "int \<Rightarrow> 'g \<Rightarrow> int \<times> 'g"
  MapLen :: "'g \<Rightarrow> int \<times> 'g"
  getArrayLen :: "Expr \<Rightarrow> int"
  lowerCaseFirstLetter :: "string \<Rightarrow> string"
  Title :: "string \<Rightarrow> string"

datatype 'p Call =
    CallTypeExpr "'p RecursionInput"
  | CallFuncImpl "'p RecursionInput" Expr

type_synonym ('g, 'p) recursion =
  "'p Call \<Rightarrow> 'g SynthState \<Rightarrow> (TypeExprToValExprRes \<times> 'g SynthState) result"

definition ZeroResult :: TypeExprToValExprRes where
  "ZeroResult =
     \<lparr>Expr = NilExpr, Statements = [], Declarations = [], ChanIdents = [], ChanStmts = [],
      ChanDecls = []\<rparr>"

definition EmptyResult :: TypeExprToValExprRes where
  "EmptyResult = ZeroResult\<lparr>Expr := BasicLit []\<rparr>"

definition Merge :: "TypeExprToValExprRes \<Rightarrow> TypeExprToValExprRes \<Rightarrow> TypeExprToValExprRes" where
  "Merge t other =
     t\<lparr>Statements := Statements t @ Statements other,
       Declarations := Declarations t @ Declarations other,
       ChanIdents := ChanIdents t @ ChanIdents other,
       ChanStmts := ChanStmts t @ ChanStmts other,
       ChanDecls := ChanDecls t @ ChanDecls other\<rparr>"

definition assignStmt :: "Expr \<Rightarrow> Expr \<Rightarrow> GoStmt" where
  "assignStmt variable value = ast_AssignStmt [variable] DEFINE [value]"

text \<open>\<open>unicode.IsLower (rune b)\<close> for a byte \<open>b\<close>: the lower-case letters of Latin-1.\<close>

definition IsLower :: "char \<Rightarrow> bool" where
  "IsLower c =
     (let n = (of_char c :: nat)
      in (0x61 \<le> n \<and> n \<le> 0x7A) \<or> n = 0xB5 \<or> (0xDF \<le> n \<and> n \<le> 0xF6) \<or> (0xF8 \<le> n \<and> n \<le> 0xFF))"

definition InterfaceNilFunc ::
  "('g, 'p) Env \<Rightarrow> Expr \<Rightarrow> 'p RecursionInput \<Rightarrow> TypeExprToValExprRes" where
  "InterfaceNilFunc env t input =
     ZeroResult\<lparr>Expr :=
       CallExpr
         (FuncLit (FuncType [] (Some [Field [] (CorrectTypeExpr env t input)]))
                  [ast_ReturnStmt [Ident ''nil'' None]])
         []\<rparr>"

definition FuncNilFunc ::
  "('g, 'p) Env \<Rightarrow> Expr \<Rightarrow> 'p RecursionInput \<Rightarrow> TypeExprToValExprRes" where
  "FuncNilFunc env t input =
     ZeroResult\<lparr>Expr := CallExpr (CorrectTypeExpr env t input) [Ident ''nil'' None]\<rparr>"

definition ChanTypeToValExpr ::
  "('g, 'p) Env \<Rightarrow> Expr \<Rightarrow> 'p RecursionInput \<Rightarrow> 'g SynthState
     \<Rightarrow> (TypeExprToValExprRes \<times> 'g SynthState) result" where
  "ChanTypeToValExpr env t input st =
     (case Generate env (gen st) of (nm, g1) \<Rightarrow>
        let newIdent = Ident (lowerCaseFirstLetter env nm) None;
            res = CallExpr (Ident ''make'' None) [t];
            dir = (case t of ChanType d v \<Rightarrow> d | _ \<Rightarrow> SENDRECV)
        in if dir \<noteq> RECV then
             Inr (ZeroResult\<lparr>Expr := newIdent, Statements := [assignStmt newIdent res],
                    ChanIdents := [Ident (lowerCaseFirstLetter env nm) None]\<rparr>, st\<lparr>gen := g1\<rparr>)
           else
             Inr (ZeroResult\<lparr>Expr := newIdent, Statements := [assignStmt newIdent res]\<rparr>,
                  st\<lparr>gen := g1\<rparr>))"

definition ReturnFieldToStmt ::
  "('g, 'p) recursion \<Rightarrow> ('g, 'p) Env \<Rightarrow> Field \<Rightarrow> 'p RecursionInput \<Rightarrow> 'g SynthState
     \<Rightarrow> (TypeExprToValExprRes \<times> 'g SynthState) result" where
  "ReturnFieldToStmt rec env res input st =
     (case Generate env (gen st) of (nm, g1) \<Rightarrow>
        let resName = lowerCaseFirstLetter env nm in
        bindR (rec (CallTypeExpr (RecursionInput (FieldType res) resName (pkgPointer input)))
                 (st\<lparr>gen := g1\<rparr>))
          (\<lambda>(recursionResult, st1).
             let result = Merge (ZeroResult\<lparr>Expr := Ident resName None\<rparr>) recursionResult
             in Inr (result\<lparr>Statements := Statements result
                        @ [assignStmt (Ident resName None) (Expr recursionResult)]\<rparr>, st1)))"

text \<open>The inner loop \<open>for range res.Names\<close> of \<open>FuncReturnListToBodyStatements\<close>.\<close>

fun FuncReturnList_names ::
  "('g, 'p) recursion \<Rightarrow> ('g, 'p) Env \<Rightarrow> Field \<Rightarrow> 'p RecursionInput \<Rightarrow> string list
     \<Rightarrow> TypeExprToValExprRes \<times> Expr list \<Rightarrow> 'g SynthState
     \<Rightarrow> ((TypeExprToValExprRes \<times> Expr list) \<times> 'g SynthState) result" where
  "FuncReturnList_names rec env res input [] acc st = Inr (acc, st)"
| "FuncReturnList_names rec env res input (n # ns) (result, retVars) st =
     bindR (ReturnFieldToStmt rec env res input st)
       (\<lambda>(recursionResult, st1).
          FuncReturnList_names rec env res input ns
            (Merge result recursionResult, retVars @ [Expr recursionResult]) st1)"

text \<open>The outer loop over \<open>t.Results.List\<close>.\<close>

fun FuncReturnList_results ::
  "('g, 'p) recursion \<Rightarrow> ('g, 'p) Env \<Rightarrow> 'p RecursionInput \<Rightarrow> Field list
     \<Rightarrow> TypeExprToValExprRes \<times> Expr list \<Rightarrow> 'g SynthState
     \<Rightarrow> ((TypeExprToValExprRes \<times> Expr list) \<times> 'g SynthState) result" where
  "FuncReturnList_results rec env input [] acc st = Inr (acc, st)"
| "FuncReturnList_results rec env input (res # rest) (result, retVars) st =
     bindR
       (if Names res = [] then
          bindR (ReturnFieldToStmt rec env res input st)
            (\<lambda>(recursionResult, st1).
               Inr ((Merge result recursionResult, retVars @ [Expr recursionResult]), st1))
        else Inr ((result, retVars), st))
       (\<lambda>(acc1, st1).
          bindR (FuncReturnList_names rec env res input (Names res) acc1 st1)
            (\<lambda>(acc2, st2). FuncReturnList_results rec env input rest acc2 st2))"

definition FuncReturnListToBodyStatements ::
  "('g, 'p) recursion \<Rightarrow> ('g, 'p) Env \<Rightarrow> 'p RecursionInput \<Rightarrow> 'g SynthState
     \<Rightarrow> (TypeExprToValExprRes \<times> 'g SynthState) result" where
  "FuncReturnListToBodyStatements rec env input st =
     (case e input of
        FuncType params results \<Rightarrow>
          bindR (case results of
                   None \<Rightarrow> Inr ((ZeroResult, []), st)
                 | Some fl \<Rightarrow> FuncReturnList_results rec env input fl (ZeroResult, []) st)
            (\<lambda>((result, retVars), st1).
               Inr (result\<lparr>Statements := Statements result @ [ast_ReturnStmt retVars]\<rparr>, st1))
      | _ \<Rightarrow> Inr (EmptyResult, st))"

definition FuncTypeToValExpr ::
  "('g, 'p) recursion \<Rightarrow> ('g, 'p) Env \<Rightarrow> 'p RecursionInput \<Rightarrow> 'g SynthState
     \<Rightarrow> (TypeExprToValExprRes \<times> 'g SynthState) result" where
  "FuncTypeToValExpr rec env input st =
     (case CorrectTypeExpr env (e input) input of
        FuncType params results \<Rightarrow>
          bindR (FuncReturnListToBodyStatements rec env input st)
            (\<lambda>(recursionResult, st1).
               Inr ((Merge ZeroResult recursionResult)
                      \<lparr>Statements := [],
                       Expr := FuncLit (FuncType params results) (Statements recursionResult)\<rparr>,
                    st1))
      | _ \<Rightarrow> Inr (EmptyResult, st))"

text \<open>
  The loop of \<open>InterfaceTypeToFuncImpl\<close> over the methods.  An index into an empty
  \<open>Names\<close> and the dereference of a missing object panic in the source.
\<close>

fun InterfaceTypeToFuncImpl_methods ::
  "('g, 'p) recursion \<Rightarrow> ('g, 'p) Env \<Rightarrow> 'p RecursionInput \<Rightarrow> Expr \<Rightarrow> Field list
     \<Rightarrow> TypeExprToValExprRes \<Rightarrow> 'g SynthState
     \<Rightarrow> (TypeExprToValExprRes \<times> 'g SynthState) result" where
  "InterfaceTypeToFuncImpl_methods rec env input interfaceImplIdent [] result st = Inr (result, st)"
| "InterfaceTypeToFuncImpl_methods rec env input interfaceImplIdent (method # rest) result st =
     (case FieldType method of
        FuncType params results \<Rightarrow>
          bindR (FuncReturnListToBodyStatements rec env
                   (RecursionInput (FuncType params results) (varName input) (pkgPointer input)) st)
            (\<lambda>(recursionResult, st1).
               let result1 = (Merge result recursionResult)\<lparr>Statements := []\<rparr>;
                   funcType = (case CorrectTypeExpr env (FuncType params results) input of
                                 FuncType ps rs \<Rightarrow> FuncType ps rs
                               | _ \<Rightarrow> FuncType params results)
               in (case Names method of
                     [] \<Rightarrow> Inl Panic
                   | n # ns \<Rightarrow>
                       InterfaceTypeToFuncImpl_methods rec env input interfaceImplIdent rest
                         (result1\<lparr>Declarations := Declarations result1 @
                            [FuncDecl [Field [''s''] (StarExpr interfaceImplIdent)]
                               (Ident n None) funcType (Statements recursionResult)]\<rparr>)
                         st1))
      | Ident nm obj \<Rightarrow>
          (case obj of
             None \<Rightarrow> Inl Panic
           | Some OtherDecl \<Rightarrow>
               InterfaceTypeToFuncImpl_methods rec env input interfaceImplIdent rest result st
           | Some (TypeSpecDecl a) \<Rightarrow>
               (case snd (typeSpecs env a) of
                  InterfaceType ia ms inc \<Rightarrow>
                    bindR (rec (CallFuncImpl
                                  (RecursionInput (InterfaceType ia ms inc) (varName input)
                                     (pkgPointer input))
                                  interfaceImplIdent) st)
                      (\<lambda>(recursionResult, st1).
                         InterfaceTypeToFuncImpl_methods rec env input interfaceImplIdent rest
                           (Merge result recursionResult) st1)
                | _ \<Rightarrow>
                    InterfaceTypeToFuncImpl_methods rec env input interfaceImplIdent rest result st))
      | SelectorExpr x sel \<Rightarrow>
          (case x of
             Ident selName obj \<Rightarrow>
               (case FindImport env (pkgPointer input) selName sel of
                  (found, expr, newPointer) \<Rightarrow>
                    if \<not> found then Inr (EmptyResult, st)
                    else
                      bindR (rec (CallFuncImpl
                                    (RecursionInput expr (varName input) (pkgPointer input))
                                    interfaceImplIdent) st)
                        (\<lambda>(recursionResult, st1).
                           InterfaceTypeToFuncImpl_methods rec env input interfaceImplIdent rest
                             (Merge result recursionResult) st1))
           | _ \<Rightarrow> Inl Panic)
      | _ \<Rightarrow> InterfaceTypeToFuncImpl_methods rec env input interfaceImplIdent rest result st)"

definition InterfaceTypeToFuncImpl ::
  "('g, 'p) recursion \<Rightarrow> ('g, 'p) Env \<Rightarrow> 'p RecursionInput \<Rightarrow> Expr \<Rightarrow> 'g SynthState
     \<Rightarrow> (TypeExprToValExprRes \<times> 'g SynthState) result" where
  "InterfaceTypeToFuncImpl rec env input interfaceImplIdent st =
     (case e input of
        InterfaceType ia methods inc \<Rightarrow>
          InterfaceTypeToFuncImpl_methods rec env input interfaceImplIdent methods ZeroResult st
      | _ \<Rightarrow> Inr (EmptyResult, st))"

text \<open>
  \<open>InterfaceTypeToValExpr\<close>.  The method list of the empty interface is \<open>nil\<close> in the
  syntax tree; the model's empty list stands for it.  The method bodies are generated by
  \<open>InterfaceTypeToFuncImpl\<close>, which the model reaches through the recursion parameter
  because that function calls itself.
\<close>

definition InterfaceTypeToValExpr ::
  "('g, 'p) recursion \<Rightarrow> ('g, 'p) Env \<Rightarrow> 'p RecursionInput \<Rightarrow> 'g SynthState
     \<Rightarrow> (TypeExprToValExprRes \<times> 'g SynthState) result" where
  "InterfaceTypeToValExpr rec env input st =
     (case e input of
        InterfaceType ia methods inc \<Rightarrow>
          if methods = [] then
            (case ValType env (gen st) of (tyName, g1) \<Rightarrow>
               case BasicExprToValExpr env tyName g1 of (x, g2) \<Rightarrow>
                 Inr (ZeroResult\<lparr>Expr := x\<rparr>, st\<lparr>gen := g2\<rparr>))
          else
            (let c = counter st;
                 c1 = c\<lparr>Interfaces := (Interfaces c)(ia := Interfaces c ia + 1)\<rparr>
             in case Generate env (gen st) of (nm, g1) \<Rightarrow>
               let interfaceImplIdent = Ident (Title env nm) None;
                   interfaceGenDecl = InterfaceGenDecl env input interfaceImplIdent;
                   mem = InterfaceMem c1 ia;
                   c2 = (case mem of
                           None \<Rightarrow> c1\<lparr>InterfaceMem := (InterfaceMem c1)(ia \<mapsto> interfaceGenDecl)\<rparr>
                         | Some d \<Rightarrow> c1);
                   st2 = st\<lparr>counter := c2, gen := g1\<rparr>;
                   generate =
                     bindR (rec (CallFuncImpl input interfaceImplIdent) st2)
                       (\<lambda>(implementationResult, st3).
                          Inr ((Merge (ZeroResult\<lparr>Declarations :=
                                         [InterfaceGenDecl env input interfaceImplIdent]\<rparr>)
                                  implementationResult)
                                 \<lparr>Expr := UnaryExpr AND (CompositeLit interfaceImplIdent [])\<rparr>,
                               st3))
               in if Interfaces c2 ia > MaxRecursion env \<and> mem \<noteq> None then
                    (case mem of
                       Some (GenDecl []) \<Rightarrow> Inl Panic
                     | Some (GenDecl (TypeSpec yName yType # specs)) \<Rightarrow>
                         Inr (ZeroResult\<lparr>Expr := UnaryExpr AND (CompositeLit yName [])\<rparr>, st2)
                     | _ \<Rightarrow> generate)
                  else generate)
      | _ \<Rightarrow> Inr (EmptyResult, st))"

text \<open>The loop of \<open>ArrayExprToValExpr\<close>, by the number of rounds left.\<close>

fun ArrayExprToValExpr_loop ::
  "('g, 'p) recursion \<Rightarrow> 'p RecursionInput \<Rightarrow> Expr \<Rightarrow> nat
     \<Rightarrow> TypeExprToValExprRes \<times> Expr list \<Rightarrow> 'g SynthState
     \<Rightarrow> ((TypeExprToValExprRes \<times> Expr list) \<times> 'g SynthState) result" where
  "ArrayExprToValExpr_loop rec input elt 0 acc st = Inr (acc, st)"
| "ArrayExprToValExpr_loop rec input elt (Suc k) (result, exprRes) st =
     bindR (rec (CallTypeExpr (RecursionInput elt (varName input) (pkgPointer input))) st)
       (\<lambda>(recursionResult, st1).
          ArrayExprToValExpr_loop rec input elt k
            (Merge result recursionResult, exprRes @ [Expr recursionResult]) st1)"

definition ArrayExprToValExpr ::
  "('g, 'p) recursion \<Rightarrow> ('g, 'p) Env \<Rightarrow> 'p RecursionInput \<Rightarrow> 'g SynthState
     \<Rightarrow> (TypeExprToValExprRes \<times> 'g SynthState) result" where
  "ArrayExprToValExpr rec env input st =
     (case e input of
        ArrayType len elt \<Rightarrow>
          (case ArrayLen env (getArrayLen env len) (gen st) of (arrayLenToUse, g1) \<Rightarrow>
             bindR (ArrayExprToValExpr_loop rec input elt (nat arrayLenToUse) (ZeroResult, [])
                      (st\<lparr>gen := g1\<rparr>))
               (\<lambda>((result, exprRes), st1).
                  Inr (result\<lparr>Expr :=
                         CompositeLit
                           (ArrayType (CorrectTypeExpr env len input) (CorrectTypeExpr env elt input))
                           exprRes\<rparr>, st1)))
      | _ \<Rightarrow> Inr (EmptyResult, st))"

text \<open>
  Modelled from the spec: the duplicate checker (\<open>NewDuplMapChecker\<close>, \<open>IsDuplExpr\<close>)
  is not among the source files.  The spec has an entry discarded when its "key
  expression exact-matches an already-accepted key".  The checker is the list of the keys
  it has accepted; \<open>IsDuplExpr\<close> answers whether the key is among them and accepts it
  when it is not.
\<close>

definition NewDuplMapChecker :: "Expr list" where
  "NewDuplMapChecker = []"

definition IsDuplExpr :: "Expr list \<Rightarrow> Expr \<Rightarrow> bool \<times> Expr list" where
  "IsDuplExpr duplCheck x = (if x \<in> set duplCheck then (True, duplCheck) else (False, duplCheck @ [x]))"

text \<open>The loop of \<open>MapExprToValExpr\<close>, by the number of rounds left.\<close>

fun MapExprToValExpr_loop ::
  "('g, 'p) recursion \<Rightarrow> 'p RecursionInput \<Rightarrow> Expr \<Rightarrow> Expr \<Rightarrow> nat \<Rightarrow> Expr list
     \<Rightarrow> TypeExprToValExprRes \<times> Expr list \<Rightarrow> 'g SynthState
     \<Rightarrow> ((TypeExprToValExprRes \<times> Expr list) \<times> 'g SynthState) result" where
  "MapExprToValExpr_loop rec input key val 0 duplCheck acc st = Inr (acc, st)"
| "MapExprToValExpr_loop rec input key val (Suc k) duplCheck (result, elts) st =
     bindR (rec (CallTypeExpr (RecursionInput key (varName input) (pkgPointer input))) st)
       (\<lambda>(keyRecursionResult, st1).
          case IsDuplExpr duplCheck (Expr keyRecursionResult) of
            (isDupl, duplCheck1) \<Rightarrow>
              if isDupl then
                MapExprToValExpr_loop rec input key val k duplCheck1 (result, elts) st1
              else
                bindR (rec (CallTypeExpr (RecursionInput val (varName input) (pkgPointer input)))
                         st1)
                  (\<lambda>(valRecursionInput, st2).
                     MapExprToValExpr_loop rec input key val k duplCheck1
                       (Merge (Merge result keyRecursionResult) valRecursionInput,
                        elts @ [KeyValueExpr (Expr keyRecursionResult) (Expr valRecursionInput)])
                       st2))"

definition MapExprToValExpr ::
  "('g, 'p) recursion \<Rightarrow> ('g, 'p) Env \<Rightarrow> 'p RecursionInput \<Rightarrow> 'g SynthState
     \<Rightarrow> (TypeExprToValExprRes \<times> 'g SynthState) result" where
  "MapExprToValExpr rec env input st =
     (case e input of
        MapType key val \<Rightarrow>
          (case MapLen env (gen st) of (mapLen, g1) \<Rightarrow>
             bindR (MapExprToValExpr_loop rec input key val (nat mapLen) NewDuplMapChecker
                      (ZeroResult, []) (st\<lparr>gen := g1\<rparr>))
               (\<lambda>((result, elts), st1).
                  Inr (result\<lparr>Expr :=
                         CompositeLit
                           (MapType (CorrectTypeExpr env key input) (CorrectTypeExpr env val input))
                           elts\<rparr>, st1)))
      | _ \<Rightarrow> Inr (EmptyResult, st))"

definition StarExprToValExpr ::
  "('g, 'p) recursion \<Rightarrow> ('g, 'p) Env \<Rightarrow> 'p RecursionInput \<Rightarrow> 'g SynthState
     \<Rightarrow> (TypeExprToValExprRes \<times> 'g SynthState) result" where
  "StarExprToValExpr rec env input st =
     (case e input of
        StarExpr x \<Rightarrow>
          (case Generate env (gen st) of (nm, g1) \<Rightarrow>
             let tempVarName = lowerCaseFirstLetter env (varName input) @ nm;
                 identTemp = Ident tempVarName None
             in bindR (rec (CallTypeExpr (RecursionInput x tempVarName (pkgPointer input)))
                         (st\<lparr>gen := g1\<rparr>))
                  (\<lambda>(recursionResult, st1).
                     let result = Merge ZeroResult recursionResult
                     in Inr (result\<lparr>Expr := UnaryExpr AND identTemp,
                               Statements := Statements result
                                 @ [assignStmt identTemp (Expr recursionResult)]\<rparr>, st1)))
      | _ \<Rightarrow> Inr (EmptyResult, st))"

text \<open>
  The inner loop of \<open>StructFieldsToKeyValExpr\<close> over the names of one field.  The
  first byte of a name is read only for a struct outside the root package; on an empty
  name that read panics.
\<close>

fun StructFieldsToKeyValExpr_names ::
  "('g, 'p) recursion \<Rightarrow> ('g, 'p) Env \<Rightarrow> 'p RecursionInput \<Rightarrow> Expr \<Rightarrow> string list
     \<Rightarrow> TypeExprToValExprRes \<times> Expr list \<Rightarrow> 'g SynthState
     \<Rightarrow> ((TypeExprToValExprRes \<times> Expr list) \<times> 'g SynthState) result" where
  "StructFieldsToKeyValExpr_names rec env input fieldType [] acc st = Inr (acc, st)"
| "StructFieldsToKeyValExpr_names rec env input fieldType (n # ns) (result, elts) st =
     (if \<not> IsRoot env (pkgPointer input) \<and> n = [] then Inl Panic
      else if \<not> IsRoot env (pkgPointer input) \<and> IsLower (hd n) then
        StructFieldsToKeyValExpr_names rec env input fieldType ns (result, elts) st
      else if ShouldReturnForFunc env fieldType
                (RecursionInput fieldType (varName input) (pkgPointer input)) then
        StructFieldsToKeyValExpr_names rec env input fieldType ns (result, elts) st
      else
        bindR (rec (CallTypeExpr (RecursionInput fieldType n (pkgPointer input))) st)
          (\<lambda>(recursionResult, st1).
             StructFieldsToKeyValExpr_names rec env input fieldType ns
               (Merge result recursionResult,
                elts @ [KeyValueExpr (Ident n None) (Expr recursionResult)]) st1))"

text \<open>The outer loop over the fields; a field without names is an embedded one.\<close>

fun StructFieldsToKeyValExpr_fields ::
  "('g, 'p) recursion \<Rightarrow> ('g, 'p) Env \<Rightarrow> 'p RecursionInput \<Rightarrow> Field list
     \<Rightarrow> TypeExprToValExprRes \<times> Expr list \<Rightarrow> 'g SynthState
     \<Rightarrow> ((TypeExprToValExprRes \<times> Expr list) \<times> 'g SynthState) result" where
  "StructFieldsToKeyValExpr_fields rec env input [] acc st = Inr (acc, st)"
| "StructFieldsToKeyValExpr_fields rec env input (field # rest) (result, elts) st =
     (if Names field = [] then
        (let n = GetUnnamedStructIdent env (FieldType field) input in
         if \<not> IsRoot env (pkgPointer input) \<and> n = [] then Inl Panic
         else if \<not> IsRoot env (pkgPointer input) \<and> IsLower (hd n) then
           StructFieldsToKeyValExpr_fields rec env input rest (result, elts) st
         else
           bindR (rec (CallTypeExpr (RecursionInput (FieldType field) n (pkgPointer input))) st)
             (\<lambda>(recursionResult, st1).
                StructFieldsToKeyValExpr_fields rec env input rest
                  (Merge result recursionResult,
                   elts @ [KeyValueExpr (Ident n None) (Expr recursionResult)]) st1))
      else
        bindR (StructFieldsToKeyValExpr_names rec env input (FieldType field) (Names field)
                 (result, elts) st)
          (\<lambda>(acc1, st1). StructFieldsToKeyValExpr_fields rec env input rest acc1 st1))"

text \<open>
  \<open>StructFieldsToKeyValExpr\<close>.  The composite literal \<open>res\<close> comes in with its type
  only; the model takes that type and returns the literal with its elements.
\<close>

definition StructFieldsToKeyValExpr ::
  "('g, 'p) recursion \<Rightarrow> ('g, 'p) Env \<Rightarrow> Expr \<Rightarrow> 'p RecursionInput \<Rightarrow> 'g SynthState
     \<Rightarrow> (TypeExprToValExprRes \<times> 'g SynthState) result" where
  "StructFieldsToKeyValExpr rec env resType input st =
     (case e input of
        StructType sa fs inc \<Rightarrow>
          bindR (StructFieldsToKeyValExpr_fields rec env input fs (ZeroResult, []) st)
            (\<lambda>((result, elts), st1). Inr (result\<lparr>Expr := CompositeLit resType elts\<rparr>, st1))
      | _ \<Rightarrow> Inr (EmptyResult, st))"

definition UnnamedStructToValExpr ::
  "('g, 'p) recursion \<Rightarrow> ('g, 'p) Env \<Rightarrow> Expr \<Rightarrow> 'p RecursionInput \<Rightarrow> 'g SynthState
     \<Rightarrow> (TypeExprToValExprRes \<times> 'g SynthState) result" where
  "UnnamedStructToValExpr rec env t input st = StructFieldsToKeyValExpr rec env t input st"

text \<open>
  \<open>StructExprToValExpr\<close>.  The key of \<open>StructMem\<close> is the address of the struct type.
  The memoized literal is one object, created at the first encounter and returned by
  reference later on: \<open>StructMem\<close> holds its content and \<open>MemLit sa\<close> is the
  reference to it.
\<close>

definition structName :: "('g, 'p) Env \<Rightarrow> 'p RecursionInput \<Rightarrow> string" where
  "structName env input =
     (if \<not> IsRoot env (pkgPointer input)
      then varName input @ PkgForPointerName env (pkgPointer input)
      else varName input)"

definition StructExprToValExpr ::
  "('g, 'p) recursion \<Rightarrow> ('g, 'p) Env \<Rightarrow> 'p RecursionInput \<Rightarrow> 'g SynthState
     \<Rightarrow> (TypeExprToValExprRes \<times> 'g SynthState) result" where
  "StructExprToValExpr rec env input st =
     (case e input of
        StructType sa fs inc \<Rightarrow>
          (let ident = CorrectTypeExpr env (Ident (varName input) None) input;
               c = counter st;
               mem = StructMem c sa;
               c1 = (case mem of
                       None \<Rightarrow> c\<lparr>StructMem := (StructMem c)(sa \<mapsto> CompositeLit ident [])\<rparr>
                     | Some m \<Rightarrow> c);
               name = structName env input;
               c2 = c1\<lparr>Structs := (Structs c1)(name := Structs c1 name + 1)\<rparr>
           in if Structs c2 name > MaxRecursion env \<and> mem \<noteq> None then
                Inr (ZeroResult\<lparr>Expr := MemLit sa\<rparr>, st\<lparr>counter := c2\<rparr>)
              else StructFieldsToKeyValExpr rec env ident input (st\<lparr>counter := c2\<rparr>))
      | _ \<Rightarrow> Inr (EmptyResult, st))"

text \<open>
  \<open>SelectorExprToValExpr\<close>.  The source overwrites the type of the composite literal
  (or the function of the call) that the recursion returned.  When that literal is the
  memoized one, the object in \<open>StructMem\<close> is the one overwritten.
\<close>

definition retypeMem :: "Expr \<Rightarrow> Expr option \<Rightarrow> Expr option" where
  "retypeMem t m = (case m of Some (CompositeLit ty elts) \<Rightarrow> Some (CompositeLit t elts) | _ \<Rightarrow> m)"

definition SelectorExprToValExpr ::
  "('g, 'p) recursion \<Rightarrow> ('g, 'p) Env \<Rightarrow> 'p RecursionInput \<Rightarrow> 'g SynthState
     \<Rightarrow> (TypeExprToValExprRes \<times> 'g SynthState) result" where
  "SelectorExprToValExpr rec env input st =
     (case e input of
        SelectorExpr x sel \<Rightarrow>
          (case x of
             Ident selName obj \<Rightarrow>
               (case FindImport env (pkgPointer input) selName sel of
                  (found, expr, newPointer) \<Rightarrow>
                    if \<not> found then Inr (EmptyResult, st)
                    else if ShouldReturnForInterface env expr
                              (RecursionInput expr (varName input) newPointer) then
                      Inr (InterfaceNilFunc env (SelectorExpr x sel) input, st)
                    else
                      bindR (rec (CallTypeExpr (RecursionInput expr (varName input) newPointer)) st)
                        (\<lambda>(recursionResult, st1).
                           let result = Merge ZeroResult recursionResult in
                           case Expr recursionResult of
                             CompositeLit ty elts \<Rightarrow>
                               Inr (result\<lparr>Expr := CompositeLit (SelectorExpr x sel) elts\<rparr>, st1)
                           | MemLit sa \<Rightarrow>
                               Inr (result\<lparr>Expr := MemLit sa\<rparr>,
                                    st1\<lparr>counter := (counter st1)\<lparr>StructMem :=
                                      (StructMem (counter st1))
                                        (sa := retypeMem (SelectorExpr x sel)
                                                 (StructMem (counter st1) sa))\<rparr>\<rparr>)
                           | CallExpr f args \<Rightarrow>
                               Inr (result\<lparr>Expr := CallExpr (SelectorExpr x sel) args\<rparr>, st1)
                           | _ \<Rightarrow> Inr (result\<lparr>Expr := Expr recursionResult\<rparr>, st1)))
           | _ \<Rightarrow> Inr (EmptyResult, st))
      | _ \<Rightarrow> Inr (EmptyResult, st))"

definition IdentWithNilObjectToValExpr ::
  "('g, 'p) recursion \<Rightarrow> ('g, 'p) Env \<Rightarrow> string \<Rightarrow> 'p RecursionInput \<Rightarrow> 'g SynthState
     \<Rightarrow> (TypeExprToValExprRes \<times> 'g SynthState) result" where
  "IdentWithNilObjectToValExpr rec env tName input st =
     (if IsBasicLit env tName then
        (case BasicExprToValExpr env tName (gen st) of (x, g1) \<Rightarrow>
           Inr (ZeroResult\<lparr>Expr := x\<rparr>, st\<lparr>gen := g1\<rparr>))
      else if IsError env tName then
        (case ErrExprToValExpr env (gen st) of (r, g1) \<Rightarrow> Inr (r, st\<lparr>gen := g1\<rparr>))
      else
        (case FindInCurrent env (pkgPointer input) tName of
           (found, expr, newPointer) \<Rightarrow>
             rec (CallTypeExpr (RecursionInput expr tName newPointer)) st))"

text \<open>
  \<open>TypeSpecToValExpr\<close> for the identifier \<open>t\<close> whose object is the type
  declaration at address \<open>a\<close>.
\<close>

definition TypeSpecToValExpr ::
  "('g, 'p) recursion \<Rightarrow> ('g, 'p) Env \<Rightarrow> Expr \<Rightarrow> nat \<Rightarrow> 'p RecursionInput \<Rightarrow> 'g SynthState
     \<Rightarrow> (TypeExprToValExprRes \<times> 'g SynthState) result" where
  "TypeSpecToValExpr rec env t a input st =
     (case typeSpecs env a of (declName, declType) \<Rightarrow>
        (case declType of
           StructType sa fs inc \<Rightarrow>
             StructExprToValExpr rec env
               (RecursionInput (StructType sa fs inc) declName (pkgPointer input)) st
         | _ \<Rightarrow>
             if ShouldReturnForInterface env declType
                  (RecursionInput declType (varName input) (pkgPointer input)) then
               Inr (InterfaceNilFunc env t input, st)
             else if ShouldReturnForFunc env declType
                       (RecursionInput declType (varName input) (pkgPointer input)) then
               Inr (FuncNilFunc env t input, st)
             else
               bindR (rec (CallTypeExpr
                             (RecursionInput declType (varName input) (pkgPointer input))) st)
                 (\<lambda>(recursionResult, st1).
                    case declType of
                      InterfaceType ia ms inc \<Rightarrow> Inr (recursionResult, st1)
                    | _ \<Rightarrow>
                        Inr ((Merge ZeroResult recursionResult)
                               \<lparr>Expr := CallExpr
                                  (CorrectTypeExpr env (Ident declName (Some (TypeSpecDecl a))) input)
                                  [Expr recursionResult]\<rparr>, st1))))"

text \<open>
  One round of \<open>TypeExprToValExpr\<close>: the type switch.  Every recursive call goes
  through \<open>rec\<close>.
\<close>

definition TypeExprToValExpr_body ::
  "('g, 'p) recursion \<Rightarrow> ('g, 'p) Env \<Rightarrow> 'p RecursionInput \<Rightarrow> 'g SynthState
     \<Rightarrow> (TypeExprToValExprRes \<times> 'g SynthState) result" where
  "TypeExprToValExpr_body rec env input st =
     (case e input of
        StructType sa fs inc \<Rightarrow>
          UnnamedStructToValExpr rec env (StructType sa fs inc) input st
      | Ident tName obj \<Rightarrow>
          (case obj of
             None \<Rightarrow> IdentWithNilObjectToValExpr rec env tName input st
           | Some (TypeSpecDecl a) \<Rightarrow> TypeSpecToValExpr rec env (Ident tName obj) a input st
           | Some OtherDecl \<Rightarrow> Inr (EmptyResult, st))
      | StarExpr x \<Rightarrow> StarExprToValExpr rec env input st
      | ArrayType len elt \<Rightarrow> ArrayExprToValExpr rec env input st
      | MapType key val \<Rightarrow> MapExprToValExpr rec env input st
      | ChanType dir val \<Rightarrow> ChanTypeToValExpr env (ChanType dir val) input st
      | FuncType params results \<Rightarrow> FuncTypeToValExpr rec env input st
      | InterfaceType ia methods inc \<Rightarrow> InterfaceTypeToValExpr rec env input st
      | SelectorExpr x sel \<Rightarrow> SelectorExprToValExpr rec env input st
      | Ellipsis elt \<Rightarrow>
          rec (CallTypeExpr (RecursionInput elt (varName input) (pkgPointer input))) st
      | _ \<Rightarrow> Inr (EmptyResult, st))"

text \<open>
  The recursion, by the depth of nested calls still allowed: \<open>run n\<close> answers
  \<open>OutOfFuel\<close> when the calls nest deeper than \<open>n\<close>.
\<close>

fun run ::
  "nat \<Rightarrow> ('g, 'p) Env \<Rightarrow> 'p Call \<Rightarrow> 'g SynthState
     \<Rightarrow> (TypeExprToValExprRes \<times> 'g SynthState) result" where
  "run 0 env c st = Inl OutOfFuel"
| "run (Suc n) env (CallTypeExpr input) st = TypeExprToValExpr_body (run n env) env input st"
| "run (Suc n) env (CallFuncImpl input interfaceImplIdent) st =
     InterfaceTypeToFuncImpl (run n env) env input interfaceImplIdent st"

definition TypeExprToValExpr ::
  "nat \<Rightarrow> ('g, 'p) Env \<Rightarrow> 'p RecursionInput \<Rightarrow> 'g SynthState
     \<Rightarrow> (TypeExprToValExprRes \<times> 'g SynthState) result" where
  "TypeExprToValExpr n env input st = run n env (CallTypeExpr input) st"

text \<open>
  \<open>FuncDeclToExprStmt\<close>.  Of the function declaration it reads the receiver list
  (\<open>None\<close> for a function without receiver) and the name.  Indexing an empty
  \<open>recvIdent\<close> panics.  The second statement of the result is \<open>None\<close> for \<open>nil\<close>.
\<close>

definition shouldUseAssign :: "Expr list \<Rightarrow> bool" where
  "shouldUseAssign printIdents =
     fold (\<lambda>x b. case x of Ident nm obj \<Rightarrow> (if nm \<noteq> ''_'' then False else b) | _ \<Rightarrow> b)
       printIdents True"

definition FuncDeclToExprStmt ::
  "Field list option \<Rightarrow> string \<Rightarrow> Expr list \<Rightarrow> Expr list \<Rightarrow> Expr list
     \<Rightarrow> (GoStmt \<times> GoStmt option) result" where
  "FuncDeclToExprStmt fRecv fName recvIdent paramIdent printIdents =
     bindR
       (case fRecv of
          Some [Field [n] t] \<Rightarrow>
            (case recvIdent of
               [] \<Rightarrow> Inl Panic
             | r # rs \<Rightarrow> Inr (SelectorExpr r fName))
        | _ \<Rightarrow> Inr (Ident fName None))
       (\<lambda>fn.
          let callExpr = CallExpr fn paramIdent;
              assignToken = (if shouldUseAssign printIdents then ASSIGN else DEFINE);
              resPrint = (if printIdents = [] then None
                          else Some (ast_AssignStmt printIdents assignToken [callExpr]))
          in Inr (ast_ExprStmt callExpr, resPrint))"

text \<open>
  The end of \<open>FuncDeclToTestCase\<close>: the two statements become the fields \<open>FuncStmt\<close>
  and \<open>FuncPrintStmt\<close> of the test case; the latter is set only for a statement that is
  not \<open>nil\<close>, and is the empty string otherwise.  The printer is a parameter.
\<close>

record TestCaseStmts =
  FuncStmt :: string
  FuncPrintStmt :: string

definition FuncDeclToTestCase ::
  "(GoStmt \<Rightarrow> string) \<Rightarrow> Field list option \<Rightarrow> string \<Rightarrow> Expr list \<Rightarrow> Expr list \<Rightarrow> Expr list
     \<Rightarrow> TestCaseStmts result" where
  "FuncDeclToTestCase MustPrettyPrintElement fRecv fName recvIdents paramIdents identsPrint =
     bindR (FuncDeclToExprStmt fRecv fName recvIdents paramIdents identsPrint)
       (\<lambda>(funcStmt, funcPrintStmt).
          Inr \<lparr>FuncStmt = MustPrettyPrintElement funcStmt,
               FuncPrintStmt = (case funcPrintStmt of None \<Rightarrow> [] | Some s \<Rightarrow> MustPrettyPrintElement s)\<rparr>)"

section \<open>Properties of the validator\<close>

lemma SetIsValid_loop_iff:
  "SetIsValid_loop i as bs = (\<forall>j. i \<le> j \<and> j < length as \<longrightarrow> as ! j = bs ! j)"
proof (induction i as bs rule: SetIsValid_loop.induct)
  case (1 i as bs)
  show ?case
  proof (cases "i < length as")
    case False
    then show ?thesis by (subst SetIsValid_loop.simps) auto
  next
    case True
    show ?thesis
    proof (cases "as ! i = bs ! i")
      case False
      with True show ?thesis by (subst SetIsValid_loop.simps) auto
    next
      case eq: True
      have "SetIsValid_loop i as bs = SetIsValid_loop (i + 1) as bs"
        using True eq by (subst SetIsValid_loop.simps) simp
      also have "\<dots> = (\<forall>j. i + 1 \<le> j \<and> j < length as \<longrightarrow> as ! j = bs ! j)"
        using "1.IH" True eq by simp
      also have "\<dots> = (\<forall>j. i \<le> j \<and> j < length as \<longrightarrow> as ! j = bs ! j)"
        using eq by (metis Suc_eq_plus1 Suc_leI le_eq_less_or_eq le_simps(3) less_imp_le_nat)
      finally show ?thesis .
    qed
  qed
qed

text \<open>
  C2.  \<open>SetIsValid\<close> returns true exactly when the two statement lists have equal
  length and agree at every index; the flag \<open>IsValid\<close> it stores is the value it
  returns, and nothing else of the record changes.
\<close>

theorem SetIsValid_accepts_iff_identical:
  "fst (SetIsValid r) =
     (length (AssertStmtsRun r) = length (SecondRun r) \<and>
      (\<forall>i < length (AssertStmtsRun r). AssertStmtsRun r ! i = SecondRun r ! i))
   \<and> snd (SetIsValid r) = r\<lparr>IsValid := fst (SetIsValid r)\<rparr>"
  by (simp add: SetIsValid_def SetIsValid_loop_iff)

theorem SetIsValid_accepts_iff_identical_witness:
  "fst (SetIsValid \<lparr>IsValid = False, Panics = False,
          AssertStmtsRun = [''a'', ''b''], SecondRun = [''a'', ''b'']\<rparr>)
   \<and> IsValid (snd (SetIsValid \<lparr>IsValid = False, Panics = False,
          AssertStmtsRun = [''a'', ''b''], SecondRun = [''a'', ''b'']\<rparr>))
   \<and> \<not> fst (SetIsValid \<lparr>IsValid = True, Panics = False,
          AssertStmtsRun = [''a'', ''b''], SecondRun = [''a'']\<rparr>)
   \<and> \<not> IsValid (snd (SetIsValid \<lparr>IsValid = True, Panics = False,
          AssertStmtsRun = [''a'', ''b''], SecondRun = [''a'', ''c'']\<rparr>))"
  using SetIsValid_accepts_iff_identical
          [of "\<lparr>IsValid = False, Panics = False,
                AssertStmtsRun = [''a'', ''b''], SecondRun = [''a'', ''b'']\<rparr>"]
        SetIsValid_accepts_iff_identical
          [of "\<lparr>IsValid = True, Panics = False,
                AssertStmtsRun = [''a'', ''b''], SecondRun = [''a'']\<rparr>"]
        SetIsValid_accepts_iff_identical
          [of "\<lparr>IsValid = True, Panics = False,
                AssertStmtsRun = [''a'', ''b''], SecondRun = [''a'', ''c'']\<rparr>"]
  by (simp add: nth_Cons' less_Suc_eq all_conj_distrib)

section \<open>Properties of the decoder\<close>











text \<open>
  C7.  A pointer node whose value is \<open>nil\<close> adds nothing of its own: with a child, the
  decoding is that of the child in the same context; without a child, the result is the
  statements emitted so far (with the replacements applied) followed by exactly one
  "is nil" assertion on the node's variable name.  Decoded on its own, such a leaf gives
  that single assertion.
\<close>

theorem nil_pointer_no_dereference:
  "AssertStmts (Output ''pointer'' vn mkt ''nil'' ai (Some child)) replacements tc resStmts mem
     = AssertStmts child replacements tc resStmts mem
   \<and> AssertStmts (Output ''pointer'' vn mkt ''nil'' ai None) replacements tc resStmts mem
     = ((map (replaceInStmt replacements) resStmts
           @ [AssertStmt AssertStmtTypeNil (applyReplacements replacements vn) []], []), mem)
   \<and> AssertStmts (Output ''pointer'' vn mkt ''nil'' ai None) [] tc [] mem
     = (([AssertStmt AssertStmtTypeNil vn []], []), mem)"
  by (simp add: CreateAssertStmts_def numericTypes_def applyReplacements_def replaceInStmt_def)

theorem nil_pointer_no_dereference_witness:
  "AssertStmts (Output ''pointer'' ''p'' [] ''nil'' [] None) [] (TypeCorrections [] []) [] [''y :='']
     = (([AssertStmt AssertStmtTypeNil ''p'' []], []), [''y :=''])
   \<and> AssertStmts (Output ''pointer'' ''q'' [] ''nil'' []
        (Some (Output ''pointer'' ''p'' [] ''nil'' [] None))) [] (TypeCorrections [] []) [] []
     = (([AssertStmt AssertStmtTypeNil ''p'' []], []), [])"
  using nil_pointer_no_dereference [of "''p''" "[]" "[]" child "[]" "TypeCorrections [] []" "[]" "[''y :='']"]
        nil_pointer_no_dereference
          [of "''q''" "[]" "[]" "Output ''pointer'' ''p'' [] ''nil'' [] None" "[]"
              "TypeCorrections [] []" "[]" "[]"]
        nil_pointer_no_dereference [of "''p''" "[]" "[]" child "[]" "TypeCorrections [] []" "[]" "[]"]
  by simp

text \<open>
  Two sample lines and what \<open>json.Unmarshal\<close> does on them.  The first is cut off in
  the middle: the library checks the syntax of the whole input before it stores anything,
  so the record stays as it was.  The second is valid JSON whose \<open>val\<close> is a number
  where the record has a string: the library reports the mismatch, skips that field and
  fills in the others.
\<close>

definition brokenLine :: string where
  "brokenLine = ''{'' @ [CHR 0x22] @ ''type'' @ [CHR 0x22] @ '':''"

definition mismatchLine :: string where
  "mismatchLine =
     ''{'' @ [CHR 0x22] @ ''type'' @ [CHR 0x22] @ '':'' @ [CHR 0x22] @ ''int'' @ [CHR 0x22]
       @ '','' @ [CHR 0x22] @ ''var_name'' @ [CHR 0x22] @ '':'' @ [CHR 0x22] @ ''x'' @ [CHR 0x22]
       @ '','' @ [CHR 0x22] @ ''val'' @ [CHR 0x22] @ '':7}''"

definition sampleUnmarshal :: "string \<Rightarrow> Output \<Rightarrow> string option \<times> Output" where
  "sampleUnmarshal line d =
     (if line = brokenLine then (Some ''unexpected end of JSON input'', d)
      else if line = mismatchLine then
        (Some ''json: cannot unmarshal number into Go struct field Output.val of type string'',
         Output ''int'' ''x'' (MapKeyType d) (Val d) (ArrIdent d) (Child d))
      else (None, d))"

text \<open>
  C9, as amended.  When \<open>json.Unmarshal\<close> fails and leaves the record untouched (a
  line that is not syntactically valid JSON), \<open>ParseLine\<close> logs the parse error, then
  meets the empty type tag of the untouched record, logs it as unknown and returns no
  statement; \<open>mem\<close> is unchanged and the caller gets a plain (empty) list.
\<close>

theorem ParseLine_malformed:
  assumes "Unmarshal line emptyOutput = (Some err, emptyOutput)"
  shows "ParseLine Unmarshal PrintStmt line mem
     = (([], [Errorf (''unable to parse runtime output: '' @ err),
              Warningf ''unknown type: , value: '']), mem)"
  using assms by (simp add: ParseLine_def emptyOutput_def CreateAssertStmts_def numericTypes_def)

theorem ParseLine_malformed_witness:
  "ParseLine sampleUnmarshal (\<lambda>s. ''stmt'') brokenLine [''y :='']
     = (([], [Errorf ''unable to parse runtime output: unexpected end of JSON input'',
              Warningf ''unknown type: , value: '']), [''y :=''])"
  using ParseLine_malformed [of sampleUnmarshal brokenLine "''unexpected end of JSON input''"
          "\<lambda>s. ''stmt''" "[''y :='']"]
  by (simp add: sampleUnmarshal_def)

text \<open>
  C9 as stated fails on a line that is valid JSON but does not fit the record: the error
  is reported, and the fields that did fit are decoded into one statement.
\<close>

theorem ParseLine_mismatch_counterexample:
  "fst (sampleUnmarshal mismatchLine emptyOutput) \<noteq> None
   \<and> fst (fst (ParseLine sampleUnmarshal (\<lambda>s. ''stmt'') mismatchLine [])) = [''stmt'']"
  by (simp add: sampleUnmarshal_def mismatchLine_def brokenLine_def ParseLine_def emptyOutput_def
        CreateAssertStmts_def numericTypes_def applyReplacements_def replaceInStmt_def)

section \<open>Sample declarations\<close>

text \<open>
  A small declaration table and one choice of the parameters, for evaluating the generator
  on concrete types: the self-referential \<open>Node\<close>, the pair \<open>A\<close> and \<open>B\<close> that
  refer to each other, a function type \<open>Handler\<close> and an interface \<open>Opaque\<close> that the
  probes report as ungeneratable, and a struct \<open>S\<close> with exported, unexported, function
  typed and embedded fields.  Package pointer \<open>0\<close> is the root package.  The name
  generator counts: its \<open>n\<close>-th name is \<open>n\<close> letters \<open>v\<close>.
\<close>

definition sampleSpecs :: "nat \<Rightarrow> string \<times> Expr" where
  "sampleSpecs a =
     (if a = 0 then
        (''Node'', StructType 0 [Field [''Next''] (StarExpr (Ident ''Node'' (Some (TypeSpecDecl 0))))] False)
      else if a = 1 then
        (''A'', StructType 1 [Field [''B''] (StarExpr (Ident ''B'' (Some (TypeSpecDecl 2))))] False)
      else if a = 2 then
        (''B'', StructType 2 [Field [''A''] (StarExpr (Ident ''A'' (Some (TypeSpecDecl 1))))] False)
      else if a = 3 then
        (''Handler'', FuncType [Field [''c''] (ChanType SEND (Ident ''int'' None))] None)
      else if a = 4 then
        (''Opaque'', InterfaceType 4 [Field [] (Ident ''hidden'' None)] False)
      else
        (''S'', StructType 5
                  [Field [''Name'', ''count''] (Ident ''int'' None),
                   Field [''Hook''] (Ident ''Handler'' (Some (TypeSpecDecl 3))),
                   Field [] (Ident ''Handler'' (Some (TypeSpecDecl 3))),
                   Field [] (Ident ''base'' None)] False))"

definition sampleEnv :: "int \<Rightarrow> (nat, nat) Env" where
  "sampleEnv m =
     \<lparr>MaxRecursion = m,
      typeSpecs = sampleSpecs,
      CorrectTypeExpr = (\<lambda>x i. x),
      ShouldReturnForInterface = (\<lambda>x i. x = snd (sampleSpecs 4)),
      ShouldReturnForFunc =
        (\<lambda>x i. x = snd (sampleSpecs 3) \<or> x = Ident ''Handler'' (Some (TypeSpecDecl 3))),
      IsRoot = (\<lambda>p. p = 0),
      PkgForPointerName = (\<lambda>p. ''pkg''),
      FindInCurrent = (\<lambda>p n. (False, NilExpr, p)),
      FindImport = (\<lambda>p n s. (False, NilExpr, p)),
      IsBasicLit = (\<lambda>n. n = ''int''),
      IsError = (\<lambda>n. n = ''error''),
      BasicExprToValExpr = (\<lambda>n g. (CallExpr (Ident n None) [BasicLit ''1''], g)),
      ErrExprToValExpr = (\<lambda>g. (ZeroResult\<lparr>Expr := Ident ''nil'' None\<rparr>, g)),
      GetUnnamedStructIdent = (\<lambda>x i. case x of Ident n obj \<Rightarrow> (if n = [] then ''E'' else n) | _ \<Rightarrow> ''E''),
      InterfaceGenDecl = (\<lambda>i x. GenDecl [TypeSpec x (StructType 99 [] False)]),
      Generate = (\<lambda>g. (replicate (Suc g) (CHR ''v''), Suc g)),
      ValType = (\<lambda>g. (''int'', g)),
      ArrayLen = (\<lambda>n g. (2, g)),
      MapLen = (\<lambda>g. (3, g)),
      getArrayLen = (\<lambda>x. 0),
      lowerCaseFirstLetter = (\<lambda>s. s),
      Title = (\<lambda>s. s)\<rparr>"

definition st0 :: "nat SynthState" where
  "st0 = \<lparr>counter = FreshCycleInfo, gen = 0\<rparr>"

definition nodeIdent :: Expr where
  "nodeIdent = Ident ''Node'' (Some (TypeSpecDecl 0))"

definition inputA :: "nat RecursionInput" where
  "inputA = RecursionInput (snd (sampleSpecs 1)) ''A'' 0"

definition inputI :: "nat RecursionInput" where
  "inputI =
     RecursionInput
       (InterfaceType 7 [Field [''M''] (FuncType [] (Some [Field [] (Ident ''int'' None)]))] False)
       ''i'' 0"

definition inputM :: "nat RecursionInput" where
  "inputM = RecursionInput (MapType (Ident ''int'' None) (Ident ''int'' None)) ''m'' 0"



text \<open>Unfolding the recursion and the counting loops at a numeral.\<close>

lemma run_numeral [simp]:
  "run (numeral k) env (CallTypeExpr input) st
     = TypeExprToValExpr_body (run (pred_numeral k) env) env input st"
  "run (numeral k) env (CallFuncImpl input ident) st
     = InterfaceTypeToFuncImpl (run (pred_numeral k) env) env input ident st"
  by (simp_all add: numeral_eq_Suc)

lemma run_1 [simp]:
  "run 1 env (CallTypeExpr input) st = TypeExprToValExpr_body (run 0 env) env input st"
  "run 1 env (CallFuncImpl input ident) st = InterfaceTypeToFuncImpl (run 0 env) env input ident st"
  unfolding One_nat_def by simp_all

lemma MapExprToValExpr_loop_numeral [simp]:
  "MapExprToValExpr_loop rec input key val (numeral k) duplCheck (result, elts) st
     = bindR (rec (CallTypeExpr (RecursionInput key (varName input) (pkgPointer input))) st)
         (\<lambda>(keyRecursionResult, st1).
            case IsDuplExpr duplCheck (Expr keyRecursionResult) of
              (isDupl, duplCheck1) \<Rightarrow>
                if isDupl then
                  MapExprToValExpr_loop rec input key val (pred_numeral k) duplCheck1 (result, elts) st1
                else
                  bindR (rec (CallTypeExpr (RecursionInput val (varName input) (pkgPointer input)))
                           st1)
                    (\<lambda>(valRecursionInput, st2).
                       MapExprToValExpr_loop rec input key val (pred_numeral k) duplCheck1
                         (Merge (Merge result keyRecursionResult) valRecursionInput,
                          elts @ [KeyValueExpr (Expr keyRecursionResult) (Expr valRecursionInput)])
                         st2))"
  by (simp add: numeral_eq_Suc)

lemmas sample_eval =
  TypeExprToValExpr_def TypeExprToValExpr_body_def TypeSpecToValExpr_def StructExprToValExpr_def
  StructFieldsToKeyValExpr_def StarExprToValExpr_def IdentWithNilObjectToValExpr_def
  MapExprToValExpr_def ArrayExprToValExpr_def UnnamedStructToValExpr_def
  FuncNilFunc_def InterfaceNilFunc_def NewDuplMapChecker_def IsDuplExpr_def
  sampleEnv_def sampleSpecs_def st0_def FreshCycleInfo_def structName_def
  Merge_def ZeroResult_def EmptyResult_def assignStmt_def Let_def IsLower_def

lemma bindR_eq_Inr: "bindR m f = Inr y \<longleftrightarrow> (\<exists>v. m = Inr v \<and> f v = Inr y)"
  by (cases m) auto

section \<open>The result-capturing call statement\<close>

definition isBlankOrNoIdent :: "Expr \<Rightarrow> bool" where
  "isBlankOrNoIdent x = (case x of Ident nm obj \<Rightarrow> nm = ''_'' | _ \<Rightarrow> True)"

lemma shouldUseAssign_fold:
  "fold (\<lambda>x b. case x of Ident nm obj \<Rightarrow> (if nm \<noteq> ''_'' then False else b) | _ \<Rightarrow> b) xs b0
     = (b0 \<and> list_all isBlankOrNoIdent xs)"
proof (induction xs arbitrary: b0)
  case Nil
  then show ?case by simp
next
  case (Cons x xs)
  then show ?case by (cases x) (auto simp: isBlankOrNoIdent_def)
qed

lemma shouldUseAssign_iff: "shouldUseAssign xs = list_all isBlankOrNoIdent xs"
  by (simp add: shouldUseAssign_def shouldUseAssign_fold)

definition callTarget :: "Field list option \<Rightarrow> string \<Rightarrow> Expr list \<Rightarrow> Expr" where
  "callTarget fRecv fName recvIdent =
     (case fRecv of
        Some [Field [n] t] \<Rightarrow> SelectorExpr (hd recvIdent) fName
      | _ \<Rightarrow> Ident fName None)"

definition receiverMissing :: "Field list option \<Rightarrow> Expr list \<Rightarrow> bool" where
  "receiverMissing fRecv recvIdent =
     (recvIdent = [] \<and> (case fRecv of Some [Field [n] t] \<Rightarrow> True | _ \<Rightarrow> False))"

lemma FuncDeclToExprStmt_target:
  "(case fRecv of
          Some [Field [n] t] \<Rightarrow>
            (case recvIdent of
               [] \<Rightarrow> Inl Panic
             | r # rs \<Rightarrow> Inr (SelectorExpr r fName))
        | _ \<Rightarrow> Inr (Ident fName None))
   = (if receiverMissing fRecv recvIdent then Inl Panic else Inr (callTarget fRecv fName recvIdent))"
  by (auto simp: receiverMissing_def callTarget_def split: option.splits list.splits Field.splits)

text \<open>
  C10.  Unless the declaration has a receiver and no receiver identifier was generated
  (the source then panics on the index), \<open>FuncDeclToExprStmt\<close> returns the plain call
  and, second, the print statement: none when the list of result identifiers is empty,
  else the assignment of the call to them, with the token \<open>=\<close> when every identifier
  among them is the blank \<open>_\<close> and the token \<open>:=\<close> as soon as one is not.  With an
  empty list the field \<open>FuncPrintStmt\<close> of the test case stays the empty string.
\<close>

theorem print_statement_token:
  assumes "\<not> receiverMissing fRecv recvIdent"
  shows "FuncDeclToExprStmt fRecv fName recvIdent paramIdent printIdents
           = Inr (ast_ExprStmt (CallExpr (callTarget fRecv fName recvIdent) paramIdent),
                  if printIdents = [] then None
                  else Some (ast_AssignStmt printIdents
                               (if list_all isBlankOrNoIdent printIdents then ASSIGN else DEFINE)
                               [CallExpr (callTarget fRecv fName recvIdent) paramIdent]))
       \<and> (printIdents = [] \<longrightarrow>
            (\<exists>s. FuncDeclToTestCase pp fRecv fName recvIdent paramIdent printIdents
                    = Inr \<lparr>FuncStmt = s, FuncPrintStmt = []\<rparr>))"
  using assms
  by (simp add: FuncDeclToExprStmt_def FuncDeclToExprStmt_target FuncDeclToTestCase_def
        shouldUseAssign_iff Let_def)

theorem print_statement_token_witness:
  "FuncDeclToExprStmt None ''F'' [] [Ident ''a'' None] [Ident ''_'' None, Ident ''_'' None]
     = Inr (ast_ExprStmt (CallExpr (Ident ''F'' None) [Ident ''a'' None]),
            Some (ast_AssignStmt [Ident ''_'' None, Ident ''_'' None] ASSIGN
                    [CallExpr (Ident ''F'' None) [Ident ''a'' None]]))
   \<and> FuncDeclToExprStmt (Some [Field [''r''] (Ident ''T'' None)]) ''M'' [Ident ''rv'' None] []
        [Ident ''_'' None, Ident ''x'' None]
     = Inr (ast_ExprStmt (CallExpr (SelectorExpr (Ident ''rv'' None) ''M'') []),
            Some (ast_AssignStmt [Ident ''_'' None, Ident ''x'' None] DEFINE
                    [CallExpr (SelectorExpr (Ident ''rv'' None) ''M'') []]))
   \<and> FuncDeclToExprStmt None ''F'' [] [] []
     = Inr (ast_ExprStmt (CallExpr (Ident ''F'' None) []), None)
   \<and> FuncDeclToTestCase (\<lambda>s. ''stmt'') None ''F'' [] [] []
     = Inr \<lparr>FuncStmt = ''stmt'', FuncPrintStmt = []\<rparr>"
  using print_statement_token [of None "[]" "''F''" "[Ident ''a'' None]"
          "[Ident ''_'' None, Ident ''_'' None]" "\<lambda>s. ''stmt''"]
        print_statement_token [of "Some [Field [''r''] (Ident ''T'' None)]" "[Ident ''rv'' None]" "''M''"
          "[]" "[Ident ''_'' None, Ident ''x'' None]" "\<lambda>s. ''stmt''"]
        print_statement_token [of None "[]" "''F''" "[]" "[]" "\<lambda>s. ''stmt''"]
  by (simp add: receiverMissing_def callTarget_def isBlankOrNoIdent_def FuncDeclToTestCase_def)

section \<open>Named types that cannot be generated\<close>

definition isStructType :: "Expr \<Rightarrow> bool" where
  "isStructType x = (case x of StructType sa fs inc \<Rightarrow> True | _ \<Rightarrow> False)"

text \<open>
  C6.  An identifier whose declaration is a named type other than a struct: when the
  interface probe reports the declared type as ungeneratable, the synthesis returns (with
  any fuel of at least one call, in an unchanged state) the call without arguments of a
  function literal that has no parameters, one result of the corrected type and the body
  \<open>return nil\<close>; when the function probe does (and the interface probe does not), it
  returns the call of the corrected type with the single argument \<open>nil\<close>.  Either way
  the result is an expression, not an error.
\<close>

theorem ungeneratable_named_type_gets_nil_stub:
  assumes "typeSpecs env a = (declName, declType)"
    and "\<not> isStructType declType"
  shows "(ShouldReturnForInterface env declType (RecursionInput declType v p) \<longrightarrow>
            TypeExprToValExpr (Suc n) env (RecursionInput (Ident tName (Some (TypeSpecDecl a))) v p) st
              = Inr (ZeroResult\<lparr>Expr :=
                       CallExpr
                         (FuncLit
                            (FuncType []
                               (Some [Field [] (CorrectTypeExpr env (Ident tName (Some (TypeSpecDecl a)))
                                                  (RecursionInput (Ident tName (Some (TypeSpecDecl a))) v p))]))
                            [ast_ReturnStmt [Ident ''nil'' None]])
                         []\<rparr>, st))
       \<and> (\<not> ShouldReturnForInterface env declType (RecursionInput declType v p)
            \<and> ShouldReturnForFunc env declType (RecursionInput declType v p) \<longrightarrow>
            TypeExprToValExpr (Suc n) env (RecursionInput (Ident tName (Some (TypeSpecDecl a))) v p) st
              = Inr (ZeroResult\<lparr>Expr :=
                       CallExpr (CorrectTypeExpr env (Ident tName (Some (TypeSpecDecl a)))
                                   (RecursionInput (Ident tName (Some (TypeSpecDecl a))) v p))
                         [Ident ''nil'' None]\<rparr>, st))"
  using assms
  by (cases declType)
     (simp_all add: TypeExprToValExpr_def TypeExprToValExpr_body_def TypeSpecToValExpr_def
        InterfaceNilFunc_def FuncNilFunc_def isStructType_def)

theorem ungeneratable_named_type_gets_nil_stub_witness:
  "TypeExprToValExpr 1 (sampleEnv 3) (RecursionInput (Ident ''Opaque'' (Some (TypeSpecDecl 4))) ''x'' 0) st0
     = Inr (ZeroResult\<lparr>Expr :=
              CallExpr (FuncLit (FuncType [] (Some [Field [] (Ident ''Opaque'' (Some (TypeSpecDecl 4)))]))
                          [ast_ReturnStmt [Ident ''nil'' None]]) []\<rparr>, st0)
   \<and> TypeExprToValExpr 1 (sampleEnv 3) (RecursionInput (Ident ''Handler'' (Some (TypeSpecDecl 3))) ''x'' 0) st0
     = Inr (ZeroResult\<lparr>Expr :=
              CallExpr (Ident ''Handler'' (Some (TypeSpecDecl 3))) [Ident ''nil'' None]\<rparr>, st0)"
  using ungeneratable_named_type_gets_nil_stub
          [of "sampleEnv 3" 4 "''Opaque''" "snd (sampleSpecs 4)" "''x''" 0 0 "''Opaque''" st0]
        ungeneratable_named_type_gets_nil_stub
          [of "sampleEnv 3" 3 "''Handler''" "snd (sampleSpecs 3)" "''x''" 0 0 "''Handler''" st0]
  by (simp add: sampleEnv_def sampleSpecs_def isStructType_def)

section \<open>The fields of a struct\<close>











section \<open>The keys of a map literal\<close>

fun keyOf :: "Expr \<Rightarrow> Expr" where
  "keyOf (KeyValueExpr k v) = k"
| "keyOf x = x"

definition isKeyValue :: "Expr \<Rightarrow> bool" where
  "isKeyValue x = (case x of KeyValueExpr k v \<Rightarrow> True | _ \<Rightarrow> False)"

lemma map_loop_distinct:
  "MapExprToValExpr_loop rec input key val k duplCheck (result, elts) st = Inr ((result', elts'), st')
   \<Longrightarrow> map keyOf elts = duplCheck \<Longrightarrow> distinct duplCheck \<Longrightarrow> list_all isKeyValue elts
   \<Longrightarrow> distinct (map keyOf elts') \<and> list_all isKeyValue elts' \<and> length elts' \<le> length elts + k"
proof (induction k arbitrary: duplCheck result elts st)
  case 0
  then show ?case by simp
next
  case (Suc k)
  from Suc.prems(1) obtain kr st1 where
    kr: "rec (CallTypeExpr (RecursionInput key (varName input) (pkgPointer input))) st = Inr (kr, st1)"
    by (auto simp: bindR_eq_Inr)
  show ?case
  proof (cases "Expr kr \<in> set duplCheck")
    case True
    with Suc.prems(1) kr
    have "MapExprToValExpr_loop rec input key val k duplCheck (result, elts) st1 = Inr ((result', elts'), st')"
      by (simp add: IsDuplExpr_def)
    from Suc.IH[OF this Suc.prems(2-4)] show ?thesis by simp
  next
    case False
    with Suc.prems(1) kr obtain vr st2 where
      l: "MapExprToValExpr_loop rec input key val k (duplCheck @ [Expr kr])
            (Merge (Merge result kr) vr, elts @ [KeyValueExpr (Expr kr) (Expr vr)]) st2
          = Inr ((result', elts'), st')"
      by (auto simp: IsDuplExpr_def bindR_eq_Inr)
    have "distinct (map keyOf elts') \<and> list_all isKeyValue elts'
            \<and> length elts' \<le> length (elts @ [KeyValueExpr (Expr kr) (Expr vr)]) + k"
      using Suc.prems(2-4) False by (intro Suc.IH[OF l]) (auto simp: isKeyValue_def)
    then show ?thesis by simp
  qed
qed

text \<open>
  C5.  When \<open>MapExprToValExpr\<close> returns, its expression is the composite literal of
  the corrected map type; every element is a key/value entry, no two entries have the
  same key expression, and there are at most as many entries as the length the value
  generator chose.  A round whose key is already accepted adds nothing and is not
  repeated: the loop counts rounds, not entries.
\<close>

theorem map_keys_distinct:
  assumes "e input = MapType key val"
    and "MapExprToValExpr rec env input st = Inr (r, st')"
  shows "\<exists>elts. Expr r = CompositeLit (MapType (CorrectTypeExpr env key input)
                                             (CorrectTypeExpr env val input)) elts
           \<and> list_all isKeyValue elts
           \<and> distinct (map keyOf elts)
           \<and> length elts \<le> nat (fst (MapLen env (gen st)))"
proof -
  obtain mapLen g1 where m: "MapLen env (gen st) = (mapLen, g1)" by (cases "MapLen env (gen st)")
  with assms obtain result elts where
    l: "MapExprToValExpr_loop rec input key val (nat mapLen) [] (ZeroResult, []) (st\<lparr>gen := g1\<rparr>)
          = Inr ((result, elts), st')"
    and r: "r = result\<lparr>Expr := CompositeLit (MapType (CorrectTypeExpr env key input)
                                             (CorrectTypeExpr env val input)) elts\<rparr>"
    by (auto simp: MapExprToValExpr_def NewDuplMapChecker_def bindR_eq_Inr)
  from map_loop_distinct[OF l] have
    "distinct (map keyOf elts) \<and> list_all isKeyValue elts \<and> length elts \<le> nat mapLen"
    by simp
  with r m show ?thesis by simp
qed

theorem map_keys_distinct_witness:
  "MapExprToValExpr (run 1 (sampleEnv 3)) (sampleEnv 3) inputM st0
     = Inr (ZeroResult\<lparr>Expr :=
              CompositeLit (MapType (Ident ''int'' None) (Ident ''int'' None))
                [KeyValueExpr (CallExpr (Ident ''int'' None) [BasicLit ''1''])
                              (CallExpr (Ident ''int'' None) [BasicLit ''1''])]\<rparr>, st0)
   \<and> fst (MapLen (sampleEnv 3) (gen st0)) = 3
   \<and> (\<exists>elts. CompositeLit (MapType (Ident ''int'' None) (Ident ''int'' None))
                [KeyValueExpr (CallExpr (Ident ''int'' None) [BasicLit ''1''])
                              (CallExpr (Ident ''int'' None) [BasicLit ''1''])]
              = CompositeLit (MapType (Ident ''int'' None) (Ident ''int'' None)) elts
            \<and> list_all isKeyValue elts \<and> distinct (map keyOf elts) \<and> length elts \<le> 3)"
proof -
  have ev: "MapExprToValExpr (run 1 (sampleEnv 3)) (sampleEnv 3) inputM st0
     = Inr (ZeroResult\<lparr>Expr :=
              CompositeLit (MapType (Ident ''int'' None) (Ident ''int'' None))
                [KeyValueExpr (CallExpr (Ident ''int'' None) [BasicLit ''1''])
                              (CallExpr (Ident ''int'' None) [BasicLit ''1''])]\<rparr>, st0)"
    by (simp add: sample_eval inputM_def)
  have m: "e inputM = MapType (Ident ''int'' None) (Ident ''int'' None)"
    by (simp add: inputM_def)
  from map_keys_distinct[OF m ev] ev show ?thesis
    by (simp add: sampleEnv_def ZeroResult_def)
qed

section \<open>The memo is written before the recursion\<close>

text \<open>
  The state in which \<open>StructExprToValExpr\<close> starts on the fields of a struct it meets
  for the first time, and the state in which \<open>InterfaceTypeToValExpr\<close> starts on the
  methods of an interface it meets for the first time.
\<close>

definition structEntered :: "('g, 'p) Env \<Rightarrow> 'p RecursionInput \<Rightarrow> nat \<Rightarrow> 'g SynthState \<Rightarrow> 'g SynthState" where
  "structEntered env input sa st =
     st\<lparr>counter := (counter st)
          \<lparr>StructMem := (StructMem (counter st))
               (sa \<mapsto> CompositeLit (CorrectTypeExpr env (Ident (varName input) None) input) []),
           Structs := (Structs (counter st))
               (structName env input := Structs (counter st) (structName env input) + 1)\<rparr>\<rparr>"

definition interfaceEntered :: "('g, 'p) Env \<Rightarrow> 'p RecursionInput \<Rightarrow> nat \<Rightarrow> 'g SynthState \<Rightarrow> 'g SynthState" where
  "interfaceEntered env input ia st =
     st\<lparr>counter := (counter st)
          \<lparr>Interfaces := (Interfaces (counter st))(ia := Interfaces (counter st) ia + 1),
           InterfaceMem := (InterfaceMem (counter st))
               (ia \<mapsto> InterfaceGenDecl env input (Ident (Title env (fst (Generate env (gen st)))) None))\<rparr>,
         gen := snd (Generate env (gen st))\<rparr>"

text \<open>
  C3.  For a struct type without a memo, \<open>StructExprToValExpr\<close> is the synthesis of
  the fields started in the state in which the bare literal (the corrected type name, no
  elements) is already stored in \<open>StructMem\<close>.  For an interface type with methods and
  without a memo, \<open>InterfaceTypeToValExpr\<close> generates the method bodies (its only
  recursive call) in the state in which the declaration of the implementing type is
  already stored in \<open>InterfaceMem\<close>.  So a reference to the same type met further down
  finds the memo while the outer call is still running.
\<close>

theorem memo_written_before_recursion:
  "(e input = StructType sa fs inc \<and> StructMem (counter st) sa = None \<longrightarrow>
      StructExprToValExpr rec env input st
        = StructFieldsToKeyValExpr rec env (CorrectTypeExpr env (Ident (varName input) None) input)
            input (structEntered env input sa st)
      \<and> StructMem (counter (structEntered env input sa st)) sa
        = Some (CompositeLit (CorrectTypeExpr env (Ident (varName input) None) input) []))
   \<and> (e input = InterfaceType ia ms inc \<and> ms \<noteq> [] \<and> InterfaceMem (counter st) ia = None \<longrightarrow>
      InterfaceTypeToValExpr rec env input st
        = bindR (rec (CallFuncImpl input (Ident (Title env (fst (Generate env (gen st)))) None))
                   (interfaceEntered env input ia st))
            (\<lambda>(implementationResult, st3).
               Inr ((Merge (ZeroResult\<lparr>Declarations :=
                              [InterfaceGenDecl env input
                                 (Ident (Title env (fst (Generate env (gen st)))) None)]\<rparr>)
                       implementationResult)
                      \<lparr>Expr := UnaryExpr AND
                         (CompositeLit (Ident (Title env (fst (Generate env (gen st)))) None) [])\<rparr>,
                    st3))
      \<and> InterfaceMem (counter (interfaceEntered env input ia st)) ia
        = Some (InterfaceGenDecl env input (Ident (Title env (fst (Generate env (gen st)))) None)))"
  by (auto simp add: StructExprToValExpr_def InterfaceTypeToValExpr_def structEntered_def
        interfaceEntered_def Let_def split: prod.splits)

text \<open>
  With the maximum set to 0, \<open>A\<close> contains \<open>B\<close> contains \<open>A\<close>: the inner \<open>A\<close>
  is answered by the reference to the memo that the outer, unfinished \<open>A\<close> stored.
\<close>

theorem memo_written_before_recursion_witness:
  "StructMem (counter (structEntered (sampleEnv 0) inputA 1 st0)) 1
     = Some (CompositeLit (Ident ''A'' None) [])
   \<and> map_sum id (\<lambda>(r, st). (Expr r, Statements r))
        (StructFieldsToKeyValExpr (run 6 (sampleEnv 0)) (sampleEnv 0) (Ident ''A'' None) inputA
           (structEntered (sampleEnv 0) inputA 1 st0))
      = Inr (CompositeLit (Ident ''A'' None)
               [KeyValueExpr (Ident ''B'' None) (UnaryExpr AND (Ident ''Bv'' None))],
             [ast_AssignStmt [Ident ''Avv'' None] DEFINE [MemLit 1],
              ast_AssignStmt [Ident ''Bv'' None] DEFINE
                [CompositeLit (Ident ''B'' None)
                   [KeyValueExpr (Ident ''A'' None) (UnaryExpr AND (Ident ''Avv'' None))]]])
   \<and> InterfaceMem (counter (interfaceEntered (sampleEnv 0) inputI 7 st0)) 7
     = Some (GenDecl [TypeSpec (Ident ''v'' None) (StructType 99 [] False)])"
proof -
  have s: "e inputA = StructType 1 [Field [''B''] (StarExpr (Ident ''B'' (Some (TypeSpecDecl 2))))] False
             \<and> StructMem (counter st0) 1 = None"
    by (simp add: inputA_def sampleSpecs_def st0_def FreshCycleInfo_def)
  have i: "e inputI = InterfaceType 7 [Field [''M''] (FuncType [] (Some [Field [] (Ident ''int'' None)]))] False
             \<and> [Field [''M''] (FuncType [] (Some [Field [] (Ident ''int'' None)]))] \<noteq> []
             \<and> InterfaceMem (counter st0) 7 = None"
    by (simp add: inputI_def st0_def FreshCycleInfo_def)
  have ev: "map_sum id (\<lambda>(r, st). (Expr r, Statements r))
        (StructExprToValExpr (run 6 (sampleEnv 0)) (sampleEnv 0) inputA st0)
      = Inr (CompositeLit (Ident ''A'' None)
               [KeyValueExpr (Ident ''B'' None) (UnaryExpr AND (Ident ''Bv'' None))],
             [ast_AssignStmt [Ident ''Avv'' None] DEFINE [MemLit 1],
              ast_AssignStmt [Ident ''Bv'' None] DEFINE
                [CompositeLit (Ident ''B'' None)
                   [KeyValueExpr (Ident ''A'' None) (UnaryExpr AND (Ident ''Avv'' None))]]])"
    by (simp add: sample_eval inputA_def)
  from memo_written_before_recursion
         [where input = inputA and sa = 1 and inc = False and st = st0
            and fs = "[Field [''B''] (StarExpr (Ident ''B'' (Some (TypeSpecDecl 2))))]"
            and rec = "run 6 (sampleEnv 0)" and env = "sampleEnv 0"]
       memo_written_before_recursion
         [where input = inputI and ia = 7 and inc = False and st = st0
            and ms = "[Field [''M''] (FuncType [] (Some [Field [] (Ident ''int'' None)]))]"
            and rec = "run 6 (sampleEnv 0)" and env = "sampleEnv 0"]
       s i ev
  show ?thesis
    by (simp add: inputA_def inputI_def sampleEnv_def st0_def)
qed

section \<open>Termination on self-referential structs\<close>

text \<open>
  The type expressions of a struct graph over the declarations \<open>A\<close>: basic types and
  \<open>error\<close>, the named structs of \<open>A\<close>, and pointers, arrays and slices, maps,
  channels and variadics of such types.
\<close>

inductive structGraphType :: "('g, 'p) Env \<Rightarrow> nat set \<Rightarrow> Expr \<Rightarrow> bool"
  for env :: "('g, 'p) Env" and A :: "nat set" where
  basic: "IsBasicLit env nm \<or> IsError env nm \<Longrightarrow> structGraphType env A (Ident nm None)"
| named: "a \<in> A \<Longrightarrow> structGraphType env A (Ident nm (Some (TypeSpecDecl a)))"
| pointer: "structGraphType env A x \<Longrightarrow> structGraphType env A (StarExpr x)"
| array: "structGraphType env A elt \<Longrightarrow> structGraphType env A (ArrayType len elt)"
| mapping: "structGraphType env A k \<Longrightarrow> structGraphType env A v \<Longrightarrow> structGraphType env A (MapType k v)"
| channel: "structGraphType env A (ChanType dir v)"
| variadic: "structGraphType env A elt \<Longrightarrow> structGraphType env A (Ellipsis elt)"

text \<open>How deep the type constructors of an expression nest.\<close>

fun depth :: "Expr \<Rightarrow> nat" where
  "depth (StarExpr x) = Suc (depth x)"
| "depth (ArrayType len elt) = Suc (depth elt)"
| "depth (MapType k v) = Suc (max (depth k) (depth v))"
| "depth (Ellipsis elt) = Suc (depth elt)"
| "depth x = 0"

text \<open>
  A struct graph: finitely many declarations, each a struct whose field names are not
  empty and whose field types are type expressions of the graph, nesting no deeper than
  \<open>D\<close>.  The fields may refer to any struct of the graph, their own included.
\<close>

definition structGraph :: "('g, 'p) Env \<Rightarrow> nat set \<Rightarrow> nat \<Rightarrow> bool" where
  "structGraph env A D =
     (finite A
      \<and> (\<forall>x i. GetUnnamedStructIdent env x i \<noteq> [])
      \<and> (\<forall>a \<in> A. case typeSpecs env a of (nm, ty) \<Rightarrow>
            (case ty of
               StructType sa fs inc \<Rightarrow>
                 (\<forall>f \<in> set fs. (\<forall>n \<in> set (Names f). n \<noteq> [])
                     \<and> structGraphType env A (FieldType f) \<and> depth (FieldType f) \<le> D)
             | _ \<Rightarrow> False)))"

text \<open>
  The counters only grow and a memo is never removed.  The potential of a declaration is
  the number of times its struct can still be expanded: what is left of the maximum, and
  at least once while it has no memo.
\<close>

definition advanced :: "CycleInfo \<Rightarrow> CycleInfo \<Rightarrow> bool" where
  "advanced c c' =
     ((\<forall>k. Structs c k \<le> Structs c' k) \<and> (\<forall>sa. StructMem c sa \<noteq> None \<longrightarrow> StructMem c' sa \<noteq> None))"

definition pot :: "('g, 'p) Env \<Rightarrow> 'p \<Rightarrow> CycleInfo \<Rightarrow> nat \<Rightarrow> nat" where
  "pot env p c a =
     (case typeSpecs env a of (nm, ty) \<Rightarrow>
        (case ty of
           StructType sa fs inc \<Rightarrow>
             (let left = nat (MaxRecursion env - Structs c (structName env (RecursionInput ty nm p)))
              in if StructMem c sa = None then max 1 left else left)
         | _ \<Rightarrow> 0))"

definition potential :: "('g, 'p) Env \<Rightarrow> 'p \<Rightarrow> nat set \<Rightarrow> CycleInfo \<Rightarrow> nat" where
  "potential env p A c = (\<Sum>a \<in> A. pot env p c a)"

definition enteredCounter :: "('g, 'p) Env \<Rightarrow> 'p RecursionInput \<Rightarrow> nat \<Rightarrow> CycleInfo \<Rightarrow> CycleInfo" where
  "enteredCounter env input sa c =
     (case StructMem c sa of
        None \<Rightarrow> c\<lparr>StructMem := (StructMem c)
                      (sa \<mapsto> CompositeLit (CorrectTypeExpr env (Ident (varName input) None) input) [])\<rparr>
      | Some m \<Rightarrow> c)
     \<lparr>Structs := (Structs c)(structName env input := Structs c (structName env input) + 1)\<rparr>"

definition returnsOn ::
  "('g, 'p) recursion \<Rightarrow> ('g, 'p) Env \<Rightarrow> 'p \<Rightarrow> nat set \<Rightarrow> nat \<Rightarrow> Expr \<Rightarrow> bool" where
  "returnsOn rec env p A \<phi> x =
     (\<forall>s v. potential env p A (counter s) \<le> \<phi> \<longrightarrow>
        (\<exists>r s'. rec (CallTypeExpr (RecursionInput x v p)) s = Inr (r, s')
                 \<and> advanced (counter s) (counter s')))"

lemma advanced_refl [simp]: "advanced c c"
  by (simp add: advanced_def)

lemma advanced_trans: "advanced c c' \<Longrightarrow> advanced c' c'' \<Longrightarrow> advanced c c''"
  unfolding advanced_def by (meson order_trans)

lemma structName_cong [simp]:
  "structName env (RecursionInput x nm p) = structName env (RecursionInput y nm p)"
  by (simp add: structName_def)

lemma pot_mono: "advanced c c' \<Longrightarrow> pot env p c' a \<le> pot env p c a"
proof -
  assume adv: "advanced c c'"
  obtain nm ty where ts: "typeSpecs env a = (nm, ty)" by (cases "typeSpecs env a")
  show ?thesis
  proof (cases ty)
    case (StructType sa fs inc)
    let ?k = "structName env (RecursionInput ty nm p)"
    have le: "nat (MaxRecursion env - Structs c' ?k) \<le> nat (MaxRecursion env - Structs c ?k)"
      using adv by (simp add: advanced_def nat_mono)
    have mem: "StructMem c' sa = None \<Longrightarrow> StructMem c sa = None"
      using adv by (auto simp add: advanced_def)
    show ?thesis using le mem ts StructType
      by (auto simp: pot_def Let_def max_def)
  qed (simp_all add: pot_def ts)
qed

lemma potential_mono: "advanced c c' \<Longrightarrow> potential env p A c' \<le> potential env p A c"
  unfolding potential_def by (intro sum_mono pot_mono)

lemma StructExprToValExpr_cases:
  assumes "e input = StructType sa fs inc"
  shows "StructExprToValExpr rec env input st =
     (if MaxRecursion env \<le> Structs (counter st) (structName env input) \<and> StructMem (counter st) sa \<noteq> None
      then Inr (ZeroResult\<lparr>Expr := MemLit sa\<rparr>, st\<lparr>counter := enteredCounter env input sa (counter st)\<rparr>)
      else StructFieldsToKeyValExpr rec env (CorrectTypeExpr env (Ident (varName input) None) input) input
             (st\<lparr>counter := enteredCounter env input sa (counter st)\<rparr>))"
  using assms
  by (auto simp: StructExprToValExpr_def enteredCounter_def Let_def split: option.splits)

lemma advanced_entered: "advanced c (enteredCounter env input sa c)"
  by (auto simp: advanced_def enteredCounter_def split: option.splits)

lemma pot_entered_less:
  assumes ts: "typeSpecs env a = (nm, StructType sa fs inc)"
    and expand: "\<not> (MaxRecursion env \<le> Structs c (structName env (RecursionInput (StructType sa fs inc) nm p))
                   \<and> StructMem c sa \<noteq> None)"
  shows "pot env p (enteredCounter env (RecursionInput (StructType sa fs inc) nm p) sa c) a < pot env p c a"
  using ts expand
  by (auto simp: pot_def enteredCounter_def Let_def max_def split: option.splits)

lemma potential_entered_less:
  assumes "finite A" "a \<in> A"
    and ts: "typeSpecs env a = (nm, StructType sa fs inc)"
    and expand: "\<not> (MaxRecursion env \<le> Structs c (structName env (RecursionInput (StructType sa fs inc) nm p))
                   \<and> StructMem c sa \<noteq> None)"
  shows "potential env p A (enteredCounter env (RecursionInput (StructType sa fs inc) nm p) sa c)
           < potential env p A c"
  unfolding potential_def
proof (rule sum_strict_mono_ex1)
  show "finite A" by fact
  show "\<forall>x\<in>A. pot env p (enteredCounter env (RecursionInput (StructType sa fs inc) nm p) sa c) x
            \<le> pot env p c x"
    by (simp add: pot_mono advanced_entered)
  show "\<exists>x\<in>A. pot env p (enteredCounter env (RecursionInput (StructType sa fs inc) nm p) sa c) x
            < pot env p c x"
    using pot_entered_less[OF ts expand] \<open>a \<in> A\<close> by blast
qed

lemma potential_fresh:
  "potential env p A FreshCycleInfo \<le> card A * max 1 (nat (MaxRecursion env))"
proof -
  have "pot env p FreshCycleInfo a \<le> max 1 (nat (MaxRecursion env))" for a
    by (cases "snd (typeSpecs env a)")
       (auto simp: pot_def FreshCycleInfo_def Let_def split: prod.splits)
  then have "(\<Sum>a \<in> A. pot env p FreshCycleInfo a) \<le> of_nat (card A) * max 1 (nat (MaxRecursion env))"
    by (intro sum_bounded_above) simp
  then show ?thesis unfolding potential_def by simp
qed

lemma returnsOnD:
  assumes "returnsOn rec env p A \<phi> x" "potential env p A (counter s) \<le> \<phi>"
  obtains r s' where "rec (CallTypeExpr (RecursionInput x v p)) s = Inr (r, s')"
    "advanced (counter s) (counter s')" "potential env p A (counter s') \<le> \<phi>"
proof -
  from assms obtain r s' where 1: "rec (CallTypeExpr (RecursionInput x v p)) s = Inr (r, s')"
    and 2: "advanced (counter s) (counter s')"
    unfolding returnsOn_def by blast
  from potential_mono[OF 2] assms(2) have "potential env p A (counter s') \<le> \<phi>"
    by (meson order_trans)
  with 1 2 show ?thesis using that by blast
qed

lemma names_loop_returns:
  assumes "returnsOn rec env p A \<phi> ty" "pkgPointer input = p"
  shows "\<forall>n \<in> set ns. n \<noteq> [] \<Longrightarrow> potential env p A (counter s) \<le> \<phi>
    \<Longrightarrow> \<exists>acc' s'. StructFieldsToKeyValExpr_names rec env input ty ns acc s = Inr (acc', s')
           \<and> advanced (counter s) (counter s')"
proof (induction ns arbitrary: acc s)
  case Nil
  then show ?case by simp
next
  case (Cons n ns)
  obtain result elts where acc: "acc = (result, elts)" by (cases acc)
  from Cons.prems have ne: "n \<noteq> []" and rest: "\<forall>n \<in> set ns. n \<noteq> []" by auto
  show ?case
  proof (cases "(\<not> IsRoot env (pkgPointer input) \<and> IsLower (hd n))
      \<or> ShouldReturnForFunc env ty (RecursionInput ty (varName input) (pkgPointer input))")
    case True
    from Cons.IH[OF rest Cons.prems(2), of "(result, elts)"] True ne acc show ?thesis by auto
  next
    case False
    from returnsOnD[OF assms(1) Cons.prems(2), of n] obtain rr s1 where
      r: "rec (CallTypeExpr (RecursionInput ty n p)) s = Inr (rr, s1)"
      and a: "advanced (counter s) (counter s1)" and p1: "potential env p A (counter s1) \<le> \<phi>"
      by blast
    from Cons.IH[OF rest p1, of "(Merge result rr, elts @ [KeyValueExpr (Ident n None) (Expr rr)])"]
    obtain acc' s' where
      l: "StructFieldsToKeyValExpr_names rec env input ty ns
            (Merge result rr, elts @ [KeyValueExpr (Ident n None) (Expr rr)]) s1 = Inr (acc', s')"
      and a': "advanced (counter s1) (counter s')" by blast
    from False ne acc r l assms(2)
    have "StructFieldsToKeyValExpr_names rec env input ty (n # ns) acc s = Inr (acc', s')"
      by auto
    with advanced_trans[OF a a'] show ?thesis by blast
  qed
qed

lemma fields_loop_returns:
  assumes "pkgPointer input = p" "\<forall>x i. GetUnnamedStructIdent env x i \<noteq> []"
  shows "\<forall>f \<in> set fs. (\<forall>n \<in> set (Names f). n \<noteq> []) \<and> returnsOn rec env p A \<phi> (FieldType f)
    \<Longrightarrow> potential env p A (counter s) \<le> \<phi>
    \<Longrightarrow> \<exists>acc' s'. StructFieldsToKeyValExpr_fields rec env input fs acc s = Inr (acc', s')
           \<and> advanced (counter s) (counter s')"
proof (induction fs arbitrary: acc s)
  case Nil
  then show ?case by simp
next
  case (Cons f fs)
  obtain result elts where acc: "acc = (result, elts)" by (cases acc)
  from Cons.prems(1) have f: "\<forall>n \<in> set (Names f). n \<noteq> []" "returnsOn rec env p A \<phi> (FieldType f)"
    and rest: "\<forall>f \<in> set fs. (\<forall>n \<in> set (Names f). n \<noteq> []) \<and> returnsOn rec env p A \<phi> (FieldType f)"
    by auto
  show ?case
  proof (cases "Names f = []")
    case False
    from names_loop_returns[OF f(2) assms(1) f(1) Cons.prems(2), where acc = acc]
    obtain acc1 s1 where
      n: "StructFieldsToKeyValExpr_names rec env input (FieldType f) (Names f) acc s = Inr (acc1, s1)"
      and a: "advanced (counter s) (counter s1)" by blast
    from potential_mono[OF a] Cons.prems(2) have p1: "potential env p A (counter s1) \<le> \<phi>"
      by (meson order_trans)
    from Cons.IH[OF rest p1, of acc1] obtain acc' s' where
      l: "StructFieldsToKeyValExpr_fields rec env input fs acc1 s1 = Inr (acc', s')"
      and a': "advanced (counter s1) (counter s')" by blast
    from False acc n l
    have "StructFieldsToKeyValExpr_fields rec env input (f # fs) acc s = Inr (acc', s')" by simp
    with advanced_trans[OF a a'] show ?thesis by blast
  next
    case True
    let ?n = "GetUnnamedStructIdent env (FieldType f) input"
    have ne: "?n \<noteq> []" using assms(2) by simp
    show ?thesis
    proof (cases "\<not> IsRoot env (pkgPointer input) \<and> IsLower (hd ?n)")
      case skip: True
      from Cons.IH[OF rest Cons.prems(2), of "(result, elts)"] True skip ne acc show ?thesis
        by (auto simp: Let_def)
    next
      case keep: False
      from returnsOnD[OF f(2) Cons.prems(2), of ?n] obtain rr s1 where
        r: "rec (CallTypeExpr (RecursionInput (FieldType f) ?n p)) s = Inr (rr, s1)"
        and a: "advanced (counter s) (counter s1)" and p1: "potential env p A (counter s1) \<le> \<phi>"
        by blast
      from Cons.IH[OF rest p1, of "(Merge result rr, elts @ [KeyValueExpr (Ident ?n None) (Expr rr)])"]
      obtain acc' s' where
        l: "StructFieldsToKeyValExpr_fields rec env input fs
              (Merge result rr, elts @ [KeyValueExpr (Ident ?n None) (Expr rr)]) s1 = Inr (acc', s')"
        and a': "advanced (counter s1) (counter s')" by blast
      from True keep ne acc r l assms(1)
      have "StructFieldsToKeyValExpr_fields rec env input (f # fs) acc s = Inr (acc', s')"
        by (auto simp: Let_def)
      with advanced_trans[OF a a'] show ?thesis by blast
    qed
  qed
qed

lemma array_loop_returns:
  assumes "returnsOn rec env p A \<phi> elt" "pkgPointer input = p"
  shows "potential env p A (counter s) \<le> \<phi>
    \<Longrightarrow> \<exists>acc' s'. ArrayExprToValExpr_loop rec input elt k acc s = Inr (acc', s')
           \<and> advanced (counter s) (counter s')"
proof (induction k arbitrary: acc s)
  case 0
  then show ?case by simp
next
  case (Suc k)
  obtain result exprRes where acc: "acc = (result, exprRes)" by (cases acc)
  from returnsOnD[OF assms(1) Suc.prems, of "varName input"] obtain rr s1 where
    r: "rec (CallTypeExpr (RecursionInput elt (varName input) p)) s = Inr (rr, s1)"
    and a: "advanced (counter s) (counter s1)" and p1: "potential env p A (counter s1) \<le> \<phi>"
    by blast
  from Suc.IH[OF p1, of "(Merge result rr, exprRes @ [Expr rr])"] obtain acc' s' where
    l: "ArrayExprToValExpr_loop rec input elt k (Merge result rr, exprRes @ [Expr rr]) s1 = Inr (acc', s')"
    and a': "advanced (counter s1) (counter s')" by blast
  from acc r l assms(2) have "ArrayExprToValExpr_loop rec input elt (Suc k) acc s = Inr (acc', s')"
    by simp
  with advanced_trans[OF a a'] show ?case by blast
qed

lemma map_loop_returns:
  assumes "returnsOn rec env p A \<phi> key" "returnsOn rec env p A \<phi> val" "pkgPointer input = p"
  shows "potential env p A (counter s) \<le> \<phi>
    \<Longrightarrow> \<exists>acc' s'. MapExprToValExpr_loop rec input key val k duplCheck acc s = Inr (acc', s')
           \<and> advanced (counter s) (counter s')"
proof (induction k arbitrary: acc s duplCheck)
  case 0
  then show ?case by simp
next
  case (Suc k)
  obtain result elts where acc: "acc = (result, elts)" by (cases acc)
  from returnsOnD[OF assms(1) Suc.prems, of "varName input"] obtain kr s1 where
    r: "rec (CallTypeExpr (RecursionInput key (varName input) p)) s = Inr (kr, s1)"
    and a: "advanced (counter s) (counter s1)" and p1: "potential env p A (counter s1) \<le> \<phi>"
    by blast
  show ?case
  proof (cases "Expr kr \<in> set duplCheck")
    case True
    from Suc.IH[OF p1, of duplCheck "(result, elts)"] obtain acc' s' where
      l: "MapExprToValExpr_loop rec input key val k duplCheck (result, elts) s1 = Inr (acc', s')"
      and a': "advanced (counter s1) (counter s')" by blast
    from True acc r l assms(3)
    have "MapExprToValExpr_loop rec input key val (Suc k) duplCheck acc s = Inr (acc', s')"
      by (simp add: IsDuplExpr_def)
    with advanced_trans[OF a a'] show ?thesis by blast
  next
    case False
    from returnsOnD[OF assms(2) p1, of "varName input"] obtain vr s2 where
      r2: "rec (CallTypeExpr (RecursionInput val (varName input) p)) s1 = Inr (vr, s2)"
      and a2: "advanced (counter s1) (counter s2)" and p2: "potential env p A (counter s2) \<le> \<phi>"
      by blast
    from Suc.IH[OF p2, of "duplCheck @ [Expr kr]"
        "(Merge (Merge result kr) vr, elts @ [KeyValueExpr (Expr kr) (Expr vr)])"]
    obtain acc' s' where
      l: "MapExprToValExpr_loop rec input key val k (duplCheck @ [Expr kr])
            (Merge (Merge result kr) vr, elts @ [KeyValueExpr (Expr kr) (Expr vr)]) s2 = Inr (acc', s')"
      and a': "advanced (counter s2) (counter s')" by blast
    from False acc r r2 l assms(3)
    have "MapExprToValExpr_loop rec input key val (Suc k) duplCheck acc s = Inr (acc', s')"
      by (simp add: IsDuplExpr_def)
    with advanced_trans[OF a advanced_trans[OF a2 a']] show ?thesis by blast
  qed
qed

lemma structGraph_specD:
  assumes "structGraph env A D" "a \<in> A"
  obtains nm sa fs inc where "typeSpecs env a = (nm, StructType sa fs inc)"
    "\<forall>f \<in> set fs. (\<forall>n \<in> set (Names f). n \<noteq> [])
        \<and> structGraphType env A (FieldType f) \<and> depth (FieldType f) \<le> D"
proof -
  obtain nm ty where ts: "typeSpecs env a = (nm, ty)" by (cases "typeSpecs env a")
  from assms ts have c: "case ty of
               StructType sa fs inc \<Rightarrow>
                 (\<forall>f \<in> set fs. (\<forall>n \<in> set (Names f). n \<noteq> [])
                     \<and> structGraphType env A (FieldType f) \<and> depth (FieldType f) \<le> D)
             | _ \<Rightarrow> False"
    unfolding structGraph_def by fastforce
  then show ?thesis using ts that by (cases ty) auto
qed

lemma struct_graph_returns:
  assumes sg: "structGraph env A D"
  shows "structGraphType env A x \<Longrightarrow> \<phi> * (D + 2) + depth x + 1 \<le> n
           \<Longrightarrow> returnsOn (run n env) env p A \<phi> x"
proof (induction \<phi> arbitrary: x n rule: less_induct)
  case (less \<phi>)
  note outer = less.IH
  from less.prems show ?case
  proof (induction arbitrary: n rule: structGraphType.induct)
    case (basic nm)
    then obtain m where n: "n = Suc m" by (cases n) auto
    show ?case
      using basic.hyps unfolding returnsOn_def n
      by (auto simp: TypeExprToValExpr_body_def IdentWithNilObjectToValExpr_def split: prod.splits)
  next
    case (channel dir v)
    then obtain m where n: "n = Suc m" by (cases n) auto
    show ?case
      unfolding returnsOn_def n
      by (auto simp: TypeExprToValExpr_body_def ChanTypeToValExpr_def Let_def split: prod.splits)
  next
    case (pointer x)
    from pointer.prems obtain m where n: "n = Suc m" and m: "\<phi> * (D + 2) + depth x + 1 \<le> m"
      by (cases n) auto
    note rec = pointer.IH[OF m]
    show ?case
      unfolding returnsOn_def
    proof (intro allI impI)
      fix s :: "'a SynthState" and v
      assume ps: "potential env p A (counter s) \<le> \<phi>"
      obtain nm g1 where g: "Generate env (gen s) = (nm, g1)" by (cases "Generate env (gen s)")
      from ps have "potential env p A (counter (s\<lparr>gen := g1\<rparr>)) \<le> \<phi>" by simp
      from returnsOnD[OF rec this, of "lowerCaseFirstLetter env v @ nm"] obtain rr s1 where
        "run m env (CallTypeExpr (RecursionInput x (lowerCaseFirstLetter env v @ nm) p)) (s\<lparr>gen := g1\<rparr>)
           = Inr (rr, s1)" "advanced (counter (s\<lparr>gen := g1\<rparr>)) (counter s1)"
        by blast
      then show "\<exists>r s'. run n env (CallTypeExpr (RecursionInput (StarExpr x) v p)) s = Inr (r, s')
                 \<and> advanced (counter s) (counter s')"
        using g by (simp add: n TypeExprToValExpr_body_def StarExprToValExpr_def Let_def)
    qed
  next
    case (variadic elt)
    from variadic.prems obtain m where n: "n = Suc m" and m: "\<phi> * (D + 2) + depth elt + 1 \<le> m"
      by (cases n) auto
    note rec = variadic.IH[OF m]
    show ?case
      unfolding returnsOn_def
    proof (intro allI impI)
      fix s :: "'a SynthState" and v
      assume ps: "potential env p A (counter s) \<le> \<phi>"
      from returnsOnD[OF rec ps, of v] obtain rr s1 where
        "run m env (CallTypeExpr (RecursionInput elt v p)) s = Inr (rr, s1)"
        "advanced (counter s) (counter s1)"
        by blast
      then show "\<exists>r s'. run n env (CallTypeExpr (RecursionInput (Ellipsis elt) v p)) s = Inr (r, s')
                 \<and> advanced (counter s) (counter s')"
        by (simp add: n TypeExprToValExpr_body_def)
    qed
  next
    case (array elt len)
    from array.prems obtain m where n: "n = Suc m" and m: "\<phi> * (D + 2) + depth elt + 1 \<le> m"
      by (cases n) auto
    note rec = array.IH[OF m]
    show ?case
      unfolding returnsOn_def
    proof (intro allI impI)
      fix s :: "'a SynthState" and v
      assume ps: "potential env p A (counter s) \<le> \<phi>"
      obtain k g1 where g: "ArrayLen env (getArrayLen env len) (gen s) = (k, g1)"
        by (cases "ArrayLen env (getArrayLen env len) (gen s)")
      from ps have ps': "potential env p A (counter (s\<lparr>gen := g1\<rparr>)) \<le> \<phi>" by simp
      from array_loop_returns[OF rec _ ps', where input = "RecursionInput (ArrayType len elt) v p"
          and k = "nat k" and acc = "(ZeroResult, [])"]
      obtain acc' s' where
        "ArrayExprToValExpr_loop (run m env) (RecursionInput (ArrayType len elt) v p) elt (nat k)
           (ZeroResult, []) (s\<lparr>gen := g1\<rparr>) = Inr (acc', s')"
        "advanced (counter (s\<lparr>gen := g1\<rparr>)) (counter s')"
        by auto
      then show "\<exists>r s'. run n env (CallTypeExpr (RecursionInput (ArrayType len elt) v p)) s = Inr (r, s')
                 \<and> advanced (counter s) (counter s')"
        using g by (cases acc') (simp add: n TypeExprToValExpr_body_def ArrayExprToValExpr_def)
    qed
  next
    case (mapping k v)
    from mapping.prems obtain m where n: "n = Suc m"
      and mk: "\<phi> * (D + 2) + depth k + 1 \<le> m" and mv: "\<phi> * (D + 2) + depth v + 1 \<le> m"
      by (cases n) auto
    note reck = mapping.IH(1)[OF mk] and recv = mapping.IH(2)[OF mv]
    show ?case
      unfolding returnsOn_def
    proof (intro allI impI)
      fix s :: "'a SynthState" and vn
      assume ps: "potential env p A (counter s) \<le> \<phi>"
      obtain l g1 where g: "MapLen env (gen s) = (l, g1)" by (cases "MapLen env (gen s)")
      from ps have ps': "potential env p A (counter (s\<lparr>gen := g1\<rparr>)) \<le> \<phi>" by simp
      from map_loop_returns[OF reck recv _ ps', where input = "RecursionInput (MapType k v) vn p"
          and k = "nat l" and duplCheck = "[]" and acc = "(ZeroResult, [])"]
      obtain acc' s' where
        "MapExprToValExpr_loop (run m env) (RecursionInput (MapType k v) vn p) k v (nat l) []
           (ZeroResult, []) (s\<lparr>gen := g1\<rparr>) = Inr (acc', s')"
        "advanced (counter (s\<lparr>gen := g1\<rparr>)) (counter s')"
        by auto
      then show "\<exists>r s'. run n env (CallTypeExpr (RecursionInput (MapType k v) vn p)) s = Inr (r, s')
                 \<and> advanced (counter s) (counter s')"
        using g
        by (cases acc')
           (simp add: n TypeExprToValExpr_body_def MapExprToValExpr_def NewDuplMapChecker_def)
    qed
  next
    case (named a nm)
    from named.prems obtain m where n: "n = Suc m" and m: "\<phi> * (D + 2) \<le> m"
      by (cases n) auto
    from structGraph_specD[OF sg named.hyps] obtain dn sa fs inc where
      ts: "typeSpecs env a = (dn, StructType sa fs inc)" and
      fs: "\<forall>f \<in> set fs. (\<forall>n \<in> set (Names f). n \<noteq> [])
              \<and> structGraphType env A (FieldType f) \<and> depth (FieldType f) \<le> D"
      by blast
    from sg have fin: "finite A" and un: "\<forall>x i. GetUnnamedStructIdent env x i \<noteq> []"
      by (auto simp: structGraph_def)
    let ?input = "RecursionInput (StructType sa fs inc) dn p"
    show ?case
      unfolding returnsOn_def
    proof (intro allI impI)
      fix s :: "'a SynthState" and v
      assume ps: "potential env p A (counter s) \<le> \<phi>"
      let ?c2 = "enteredCounter env ?input sa (counter s)"
      have run_eq: "run n env (CallTypeExpr (RecursionInput (Ident nm (Some (TypeSpecDecl a))) v p)) s
              = StructExprToValExpr (run m env) env ?input s"
        using ts by (simp add: n TypeExprToValExpr_body_def TypeSpecToValExpr_def)
      show "\<exists>r s'. run n env (CallTypeExpr (RecursionInput (Ident nm (Some (TypeSpecDecl a))) v p)) s
                     = Inr (r, s') \<and> advanced (counter s) (counter s')"
      proof (cases "MaxRecursion env \<le> Structs (counter s) (structName env ?input)
                      \<and> StructMem (counter s) sa \<noteq> None")
        case True
        then show ?thesis
          unfolding run_eq
          by (subst StructExprToValExpr_cases[where sa = sa and fs = fs and inc = inc])
             (auto simp: advanced_entered)
      next
        case False
        from potential_entered_less[OF fin named.hyps ts False] ps
        have lt: "potential env p A ?c2 < \<phi>" by simp
        then obtain \<phi>' where \<phi>': "\<phi> = Suc \<phi>'" "potential env p A ?c2 \<le> \<phi>'"
          by (cases \<phi>) auto
        have recf: "\<forall>f \<in> set fs. (\<forall>n \<in> set (Names f). n \<noteq> [])
                      \<and> returnsOn (run m env) env p A \<phi>' (FieldType f)"
        proof
          fix f assume f: "f \<in> set fs"
          with fs have w: "structGraphType env A (FieldType f)" and d: "depth (FieldType f) \<le> D"
            and ne: "\<forall>n \<in> set (Names f). n \<noteq> []" by auto
          have "\<phi>' * (D + 2) + depth (FieldType f) + 1 \<le> m"
            using m d \<phi>'(1) by simp
          from outer[OF _ w this] \<phi>'(1) ne
          show "(\<forall>n \<in> set (Names f). n \<noteq> []) \<and> returnsOn (run m env) env p A \<phi>' (FieldType f)"
            by simp
        qed
        have "potential env p A (counter (s\<lparr>counter := ?c2\<rparr>)) \<le> \<phi>'"
          using \<phi>'(2) by simp
        from fields_loop_returns[OF _ un recf this, where input = ?input and acc = "(ZeroResult, [])"]
        obtain acc' s' where
          l: "StructFieldsToKeyValExpr_fields (run m env) env ?input fs (ZeroResult, [])
                (s\<lparr>counter := ?c2\<rparr>) = Inr (acc', s')"
          and a: "advanced (counter (s\<lparr>counter := ?c2\<rparr>)) (counter s')"
          by auto
        have adv: "advanced (counter s) (counter s')"
          using advanced_trans[OF advanced_entered a[simplified]] .
        from False l show ?thesis
          unfolding run_eq
          by (subst StructExprToValExpr_cases[where sa = sa and fs = fs and inc = inc])
             (cases acc'; auto simp: StructFieldsToKeyValExpr_def adv)+
      qed
    qed
  qed
qed

lemma sample_structGraph: "structGraph (sampleEnv m) {0} 1"
  by (auto simp: structGraph_def sampleEnv_def sampleSpecs_def intro!: structGraphType.intros
      split: Expr.splits)

lemma node_eval:
  "map_sum id (\<lambda>(r, st). (Expr r, Statements r, Structs (counter st) ''Node''))
     (TypeExprToValExpr 10 (sampleEnv DefaultAmountRecursion) (RecursionInput nodeIdent ''p'' 0) st0)
   = Inr (CompositeLit (Ident ''Node'' None)
            [KeyValueExpr (Ident ''Next'' None) (UnaryExpr AND (Ident ''Nextv'' None))],
          [ast_AssignStmt [Ident ''Nextvvv'' None] DEFINE [MemLit 0],
           ast_AssignStmt [Ident ''Nextvv'' None] DEFINE
             [CompositeLit (Ident ''Node'' None)
                [KeyValueExpr (Ident ''Next'' None) (UnaryExpr AND (Ident ''Nextvvv'' None))]],
           ast_AssignStmt [Ident ''Nextv'' None] DEFINE
             [CompositeLit (Ident ''Node'' None)
                [KeyValueExpr (Ident ''Next'' None) (UnaryExpr AND (Ident ''Nextvv'' None))]]],
          4)"
  by (simp add: sample_eval nodeIdent_def DefaultAmountRecursion_def)

text \<open>
  C1.  On a struct graph, self-referential or not, the synthesis of a type of the graph
  started with a fresh \<open>CycleInfo\<close> returns a result: calls nested
  \<open>card A * max 1 MaxRecursion * (D + 2) + depth x + 1\<close> deep are enough, a bound
  that depends on the maximum, the number of struct types and the nesting of one field
  type, but not on how many fields a struct has nor on how long the chains of references
  are.  The reason is the guard of \<open>StructExprToValExpr\<close>: once the counter of the
  struct's name, incremented on entry, exceeds the maximum and a memo exists, it returns
  the reference to the memoized literal at once, without a recursive call; only otherwise
  does it go into the fields.
\<close>

theorem struct_synthesis_terminates:
  assumes "structGraph env A D" and "structGraphType env A x"
    and "card A * max 1 (nat (MaxRecursion env)) * (D + 2) + depth x + 1 \<le> n"
  shows "(\<exists>r st'. TypeExprToValExpr n env (RecursionInput x v p) \<lparr>counter = FreshCycleInfo, gen = g\<rparr>
                     = Inr (r, st'))
       \<and> (\<forall>rec input st sa fs inc.
            e input = StructType sa fs inc \<longrightarrow>
            StructExprToValExpr rec env input st =
              (if MaxRecursion env < Structs (counter st) (structName env input) + 1
                  \<and> StructMem (counter st) sa \<noteq> None
               then Inr (ZeroResult\<lparr>Expr := MemLit sa\<rparr>,
                         st\<lparr>counter := enteredCounter env input sa (counter st)\<rparr>)
               else StructFieldsToKeyValExpr rec env
                      (CorrectTypeExpr env (Ident (varName input) None) input) input
                      (st\<lparr>counter := enteredCounter env input sa (counter st)\<rparr>)))"
proof (intro conjI allI impI)
  let ?\<phi> = "card A * max 1 (nat (MaxRecursion env))"
  have "returnsOn (run n env) env p A ?\<phi> x"
    using struct_graph_returns[OF assms(1,2)] assms(3) by blast
  moreover have "potential env p A (counter \<lparr>counter = FreshCycleInfo, gen = g\<rparr>) \<le> ?\<phi>"
    using potential_fresh[of env p A] by simp
  ultimately show "\<exists>r st'. TypeExprToValExpr n env (RecursionInput x v p)
                     \<lparr>counter = FreshCycleInfo, gen = g\<rparr> = Inr (r, st')"
    unfolding returnsOn_def TypeExprToValExpr_def by blast
next
  fix rec :: "('a, 'b) recursion" and input :: "'b RecursionInput" and st :: "'a SynthState"
    and sa fs inc
  assume "e input = StructType sa fs inc"
  from StructExprToValExpr_cases[OF this, of rec env st]
  show "StructExprToValExpr rec env input st =
              (if MaxRecursion env < Structs (counter st) (structName env input) + 1
                  \<and> StructMem (counter st) sa \<noteq> None
               then Inr (ZeroResult\<lparr>Expr := MemLit sa\<rparr>,
                         st\<lparr>counter := enteredCounter env input sa (counter st)\<rparr>)
               else StructFieldsToKeyValExpr rec env
                      (CorrectTypeExpr env (Ident (varName input) None) input) input
                      (st\<lparr>counter := enteredCounter env input sa (counter st)\<rparr>))"
    by simp
qed

text \<open>
  Scenario C of the spec: \<open>Node\<close> with a field of type \<open>*Node\<close> and the maximum 3.
  Three literals with the field are built, the innermost pointing to the memoized one;
  the counter ends at 4.
\<close>

theorem struct_synthesis_terminates_witness:
  "(\<exists>r st'. TypeExprToValExpr 10 (sampleEnv DefaultAmountRecursion) (RecursionInput nodeIdent ''p'' 0) st0 = Inr (r, st'))
   \<and> map_sum id (\<lambda>(r, st). (Expr r, Statements r, Structs (counter st) ''Node''))
        (TypeExprToValExpr 10 (sampleEnv DefaultAmountRecursion) (RecursionInput nodeIdent ''p'' 0) st0)
      = Inr (CompositeLit (Ident ''Node'' None)
               [KeyValueExpr (Ident ''Next'' None) (UnaryExpr AND (Ident ''Nextv'' None))],
             [ast_AssignStmt [Ident ''Nextvvv'' None] DEFINE [MemLit 0],
              ast_AssignStmt [Ident ''Nextvv'' None] DEFINE
                [CompositeLit (Ident ''Node'' None)
                   [KeyValueExpr (Ident ''Next'' None) (UnaryExpr AND (Ident ''Nextvvv'' None))]],
              ast_AssignStmt [Ident ''Nextv'' None] DEFINE
                [CompositeLit (Ident ''Node'' None)
                   [KeyValueExpr (Ident ''Next'' None) (UnaryExpr AND (Ident ''Nextvv'' None))]]],
             4)"
proof -
  have g: "structGraphType (sampleEnv DefaultAmountRecursion) {0} nodeIdent"
    unfolding nodeIdent_def by (rule structGraphType.named) simp
  have b: "card {0::nat} * max 1 (nat (MaxRecursion (sampleEnv DefaultAmountRecursion))) * (1 + 2) + depth nodeIdent + 1 \<le> 10"
    by (simp add: sampleEnv_def nodeIdent_def DefaultAmountRecursion_def)
  from struct_synthesis_terminates[OF sample_structGraph g b, of "''p''" 0 0]
  have "\<exists>r st'. TypeExprToValExpr 10 (sampleEnv DefaultAmountRecursion) (RecursionInput nodeIdent ''p'' 0) st0 = Inr (r, st')"
    by (simp add: st0_def)
  then show ?thesis using node_eval by simp
qed

end
